theory Spec2Isabelle
  imports Complex_Main
begin

section \<open>The tooltip manager of scripts/tooltips.js\<close>

text \<open>
  The class \<^verbatim>\<open>TooltipManager\<close> of \<^verbatim>\<open>scripts/tooltips.js\<close> and the helpers of
  \<^verbatim>\<open>scripts/main.js\<close> it calls, as functions on an explicit browser state.

  Conventions of the embedding.
  \<^item> A DOM element is known by its identity; a hotspot is a natural number, and
    \<^verbatim>\<open>===\<close> on hotspots is equality of these numbers.
  \<^item> Pixel quantities are JavaScript numbers; they are modelled as exact reals.
  \<^item> Time is a natural number of milliseconds. A timer started with delay \<open>d\<close> at time
    \<open>t\<close> is run by the event loop at time \<open>t + d\<close>, timers in order of their due time
    and, for equal due times, in order of creation; a handler takes no time.
  \<^item> A method that throws returns \<open>Inl\<close> of the exception and of the state at the throw.
    The browser reports an exception that escapes a listener or a timer callback and
    goes on with that state.
  \<^item> \<^verbatim>\<open>window.projectData\<close> is a plain object: \<^verbatim>\<open>window.projectData[projectId]\<close> finds
    the entries of the registry and, for the names of the members of
    \<^verbatim>\<open>Object.prototype\<close>, these members.
\<close>

subsection \<open>Data\<close>

type_synonym hotspot = nat

record rect =
  r_left :: real
  r_top :: real
  r_width :: real
  r_height :: real

definition r_right :: "rect \<Rightarrow> real" where
  "r_right r = r_left r + r_width r"

definition r_bottom :: "rect \<Rightarrow> real" where
  "r_bottom r = r_top r + r_height r"

record project_info =
  title :: string
  description :: string
  tech :: "string list"
  liveUrl :: "string option"
  githubUrl :: "string option"

datatype css = Unset | Px real | Percent real | Auto

record link_el =
  href :: string
  display :: string

text \<open>
  The tooltip element: its class attribute as the list of its tokens, the four inline
  style properties the manager writes, and the five descendants \<^verbatim>\<open>populateTooltip\<close> looks
  up with \<^verbatim>\<open>querySelector\<close> (\<open>None\<close> when the markup has no such descendant; otherwise the
  text, the inner HTML, or the link it holds).
\<close>

record tooltip_el =
  className :: "string list"
  style_left :: css
  style_top :: css
  style_bottom :: css
  style_transform :: string
  title_el :: "string option"
  description_el :: "string option"
  tech_el :: "string option"
  live_link :: "link_el option"
  github_link :: "link_el option"

record dom_event =
  clientX :: real
  clientY :: real

datatype error = TypeError

datatype diagnostic =
    TooltipElementNotFound
  | Initialized nat
  | ProjectDataNotFound string
  | Uncaught error

text \<open>
  What \<^verbatim>\<open>window.projectData[key]\<close> evaluates to when it is not \<^verbatim>\<open>undefined\<close>: an entry
  of the registry, or a member of \<^verbatim>\<open>Object.prototype\<close> (a function, or the prototype
  itself for \<^verbatim>\<open>__proto__\<close>), which is truthy and has none of the properties
  \<^verbatim>\<open>title\<close>, \<^verbatim>\<open>description\<close>, \<^verbatim>\<open>tech\<close>, \<^verbatim>\<open>liveUrl\<close>, \<^verbatim>\<open>githubUrl\<close>.
\<close>

datatype registry_value = Entry project_info | Inherited

text \<open>The closures given to \<^verbatim>\<open>setTimeout\<close>.\<close>

datatype timer_cb = ShowCb hotspot dom_event | HideCb | ResizeCb

record timer =
  tid :: nat
  due :: nat
  cb :: timer_cb

text \<open>
  The elements an event can have as its \<^verbatim>\<open>target\<close> (a hotspot, an element inside the
  tooltip, any other element of the page), and the objects the manager registers
  listeners on, with the event types and function objects of the listener table.
\<close>

datatype element = EHotspot hotspot | ETooltip | EOther

datatype target = THotspot hotspot | TDocument | TWindow

datatype evtype = Mouseenter | Mouseleave | Mousemove | Touchstart | Click | Scroll | Resize

datatype callback =
    CbMouseEnter hotspot
  | CbMouseLeave hotspot
  | CbMouseMove hotspot
  | CbTouchStart hotspot
  | CbClick hotspot
  | CbDocumentClick
  | CbScroll
  | CbResize

datatype method_name =
    M_handleMouseEnter
  | M_handleMouseLeave
  | M_handleMouseMove
  | M_handleTouchStart
  | M_handleClick
  | M_handleDocumentClick
  | M_hideTooltip
  | M_updateTooltipPosition

text \<open>
  A function object is either one of the arrow functions (or the debounced function)
  that \<^verbatim>\<open>bindEvents\<close> creates, or a method read off the instance, as in
  \<^verbatim>\<open>this.handleMouseEnter\<close>. The two are never the same object.
\<close>

datatype funref = Arrow callback | Method method_name

text \<open>
  The one thing the model does not follow: a bare method of the instance called as a
  listener, with \<^verbatim>\<open>this\<close> bound to the element. A run that comes to it stops there.
\<close>

datatype stuck = BareMethod method_name

record world =
  tooltip :: "tooltip_el option"
  hotspots :: "hotspot list"
  activeHotspot :: "hotspot option"
  hideTimeout :: "nat option"
  showTimeout :: "nat option"
  debounce_timeout :: "nat option"
  hs_project :: "hotspot \<Rightarrow> string option"
  hs_rect :: "hotspot \<Rightarrow> rect"
  hs_active :: "hotspot set"
  tooltip_rect :: rect
  projectData :: "string \<Rightarrow> project_info option"
  clientWidth :: "real option"
  innerWidth :: "real option"
  clientHeight :: "real option"
  innerHeight :: "real option"
  ontouchstart_in_window :: bool
  maxTouchPoints :: nat
  listeners :: "(target \<times> evtype \<times> funref) list"
  timers :: "timer list"
  next_tid :: nat
  now :: nat
  raf_queue :: nat
  console :: "diagnostic list"

text \<open>
  The first six fields are the manager's own (\<open>debounce_timeout\<close> is the variable
  \<^verbatim>\<open>timeout\<close> captured by the debounced resize listener). \<open>hs_project\<close> is
  \<^verbatim>\<open>dataset.project\<close>, \<open>hs_rect\<close> and \<open>tooltip_rect\<close> are what
  \<^verbatim>\<open>getBoundingClientRect()\<close> returns, \<open>hs_active\<close> is the set of hotspots whose class list
  holds \<^verbatim>\<open>active\<close>. \<open>timers\<close> are the outstanding timers in order of creation and
  \<open>raf_queue\<close> counts the outstanding animation-frame callbacks of \<^verbatim>\<open>showTooltip\<close>.
  The constructor's \<^verbatim>\<open>showDelay\<close> and \<^verbatim>\<open>hideDelay\<close> are never assigned again.
\<close>

text \<open>An exception, with the state at the throw.\<close>

type_synonym thrown = "error \<times> world"

definition showDelay :: nat where
  "showDelay = 300"

definition hideDelay :: nat where
  "hideDelay = 150"

subsection \<open>The helpers of scripts/main.js\<close>

definition or_zero :: "real option \<Rightarrow> real" where
  "or_zero x = (case x of None \<Rightarrow> 0 | Some v \<Rightarrow> v)"

record viewport =
  vp_width :: real
  vp_height :: real

definition getViewportSize :: "world \<Rightarrow> viewport" where
  "getViewportSize w =
     \<lparr>vp_width = max (or_zero (clientWidth w)) (or_zero (innerWidth w)),
      vp_height = max (or_zero (clientHeight w)) (or_zero (innerHeight w))\<rparr>"

definition isTouchDevice :: "world \<Rightarrow> bool" where
  "isTouchDevice w = (ontouchstart_in_window w \<or> maxTouchPoints w > 0)"

subsection \<open>Timers, class lists, listeners\<close>

definition clearTimeout :: "nat option \<Rightarrow> world \<Rightarrow> world" where
  "clearTimeout handle w =
     (case handle of
        None \<Rightarrow> w
      | Some i \<Rightarrow> w\<lparr>timers := filter (\<lambda>t. tid t \<noteq> i) (timers w)\<rparr>)"

definition setTimeout :: "timer_cb \<Rightarrow> nat \<Rightarrow> world \<Rightarrow> nat \<times> world" where
  "setTimeout f delay w =
     (next_tid w,
      w\<lparr>timers := timers w @ [\<lparr>tid = next_tid w, due = now w + delay, cb = f\<rparr>],
        next_tid := Suc (next_tid w)\<rparr>)"

definition classList_contains :: "string \<Rightarrow> string list \<Rightarrow> bool" where
  "classList_contains c cs = (c \<in> set cs)"

definition classList_add :: "string \<Rightarrow> string list \<Rightarrow> string list" where
  "classList_add c cs = (if c \<in> set cs then cs else cs @ [c])"

definition classList_remove :: "string \<Rightarrow> string list \<Rightarrow> string list" where
  "classList_remove c cs = filter (\<lambda>x. x \<noteq> c) cs"

definition addEventListener :: "target \<Rightarrow> evtype \<Rightarrow> funref \<Rightarrow> world \<Rightarrow> world" where
  "addEventListener tg ty f w = w\<lparr>listeners := listeners w @ [(tg, ty, f)]\<rparr>"

definition removeEventListener :: "target \<Rightarrow> evtype \<Rightarrow> funref \<Rightarrow> world \<Rightarrow> world" where
  "removeEventListener tg ty f w =
     w\<lparr>listeners := filter (\<lambda>l. l \<noteq> (tg, ty, f)) (listeners w)\<rparr>"

definition requestAnimationFrame :: "world \<Rightarrow> world" where
  "requestAnimationFrame w = w\<lparr>raf_queue := Suc (raf_queue w)\<rparr>"

subsection \<open>The methods of TooltipManager\<close>

definition handleMouseEnter :: "dom_event \<Rightarrow> hotspot \<Rightarrow> world \<Rightarrow> world" where
  "handleMouseEnter event hotspot w =
     (let w1 = clearTimeout (hideTimeout w) w;
          (i, w2) = setTimeout (ShowCb hotspot event) showDelay w1
      in w2\<lparr>showTimeout := Some i\<rparr>)"

definition handleMouseLeave :: "dom_event \<Rightarrow> hotspot \<Rightarrow> world \<Rightarrow> world" where
  "handleMouseLeave event hotspot w =
     (let w1 = clearTimeout (showTimeout w) w;
          (i, w2) = setTimeout HideCb hideDelay w1
      in w2\<lparr>hideTimeout := Some i\<rparr>)"

definition hideTooltip :: "world \<Rightarrow> world" where
  "hideTooltip w =
     (case tooltip w of
        None \<Rightarrow> w
      | Some t \<Rightarrow>
          let w1 = w\<lparr>tooltip := Some (t\<lparr>className := classList_remove ''visible'' (className t)\<rparr>)\<rparr>;
              w2 = (case activeHotspot w1 of
                      None \<Rightarrow> w1
                    | Some a \<Rightarrow> w1\<lparr>hs_active := hs_active w1 - {a}, activeHotspot := None\<rparr>);
              w3 = clearTimeout (showTimeout w2) w2
          in clearTimeout (hideTimeout w3) w3)"

definition truthy :: "string option \<Rightarrow> bool" where
  "truthy u = (case u of None \<Rightarrow> False | Some s \<Rightarrow> s \<noteq> [])"

definition tech_tag :: "string \<Rightarrow> string" where
  \<open>tech_tag t = ''<span class="tech-tag">'' @ t @ ''</span>''\<close>

text \<open>
  Reading a property of \<^verbatim>\<open>projectInfo\<close> (\<open>None\<close> is \<^verbatim>\<open>undefined\<close>), and what assigning
  such a value does: \<^verbatim>\<open>textContent = undefined\<close> clears the text, \<^verbatim>\<open>href = undefined\<close>
  sets the attribute to the string \<^verbatim>\<open>undefined\<close>.
\<close>

definition info_title :: "registry_value \<Rightarrow> string option" where
  "info_title v = (case v of Entry i \<Rightarrow> Some (title i) | Inherited \<Rightarrow> None)"

definition info_description :: "registry_value \<Rightarrow> string option" where
  "info_description v = (case v of Entry i \<Rightarrow> Some (description i) | Inherited \<Rightarrow> None)"

definition info_tech :: "registry_value \<Rightarrow> string list option" where
  "info_tech v = (case v of Entry i \<Rightarrow> Some (tech i) | Inherited \<Rightarrow> None)"

definition info_liveUrl :: "registry_value \<Rightarrow> string option" where
  "info_liveUrl v = (case v of Entry i \<Rightarrow> liveUrl i | Inherited \<Rightarrow> None)"

definition info_githubUrl :: "registry_value \<Rightarrow> string option" where
  "info_githubUrl v = (case v of Entry i \<Rightarrow> githubUrl i | Inherited \<Rightarrow> None)"

definition text_of :: "string option \<Rightarrow> string" where
  "text_of v = (case v of None \<Rightarrow> [] | Some s \<Rightarrow> s)"

definition url_of :: "string option \<Rightarrow> string" where
  "url_of v = (case v of None \<Rightarrow> ''undefined'' | Some s \<Rightarrow> s)"

definition set_link :: "string option \<Rightarrow> link_el \<Rightarrow> link_el" where
  "set_link url l =
     l\<lparr>href := url_of url, display := (if truthy url then ''inline-block'' else ''none'')\<rparr>"

text \<open>
  \<^verbatim>\<open>populateTooltip\<close> writes the title and the description, then the technology tags:
  with a \<^verbatim>\<open>.tooltip-tech\<close> element and no \<^verbatim>\<open>tech\<close> property, \<^verbatim>\<open>projectInfo.tech.map\<close>
  throws, after the two texts have been written.
\<close>

definition populateTooltip :: "registry_value \<Rightarrow> world \<Rightarrow> thrown + world" where
  "populateTooltip projectInfo w =
     (case tooltip w of
        None \<Rightarrow> Inl (TypeError, w)
      | Some t \<Rightarrow>
          let t1 = t\<lparr>title_el := map_option (\<lambda>_. text_of (info_title projectInfo)) (title_el t),
                     description_el :=
                       map_option (\<lambda>_. text_of (info_description projectInfo)) (description_el t)\<rparr>
          in (case tech_el t1 of
                None \<Rightarrow>
                  Inr (w\<lparr>tooltip := Some (t1\<lparr>
                         live_link := map_option (set_link (info_liveUrl projectInfo)) (live_link t1),
                         github_link :=
                           map_option (set_link (info_githubUrl projectInfo)) (github_link t1)\<rparr>)\<rparr>)
              | Some old \<Rightarrow>
                  (case info_tech projectInfo of
                     None \<Rightarrow> Inl (TypeError, w\<lparr>tooltip := Some t1\<rparr>)
                   | Some ts \<Rightarrow>
                       Inr (w\<lparr>tooltip := Some (t1\<lparr>
                              tech_el := Some (concat (map tech_tag ts)),
                              live_link :=
                                map_option (set_link (info_liveUrl projectInfo)) (live_link t1),
                              github_link :=
                                map_option (set_link (info_githubUrl projectInfo))
                                  (github_link t1)\<rparr>)\<rparr>))))"

definition positionTooltip :: "hotspot \<Rightarrow> dom_event \<Rightarrow> world \<Rightarrow> world" where
  "positionTooltip hotspot event w =
     (case tooltip w of
        None \<Rightarrow> w
      | Some t \<Rightarrow>
          let viewport = getViewportSize w;
              tooltipRect = tooltip_rect w;
              hotspotRect = hs_rect w hotspot
          in if isTouchDevice w \<or> vp_width viewport < 768
             then w\<lparr>tooltip := Some (t\<lparr>style_left := Percent 50, style_top := Auto,
                                       style_bottom := Px 20,
                                       style_transform := ''translateX(-50%)'',
                                       className := [''tooltip'', ''visible'', ''bottom'']\<rparr>)\<rparr>
             else
               let spacing = (15::real);
                   p0 = (r_left hotspotRect + r_width hotspotRect / 2,
                         r_top hotspotRect - r_height tooltipRect - spacing,
                         ''top'');
                   p1 = (case p0 of (x, y, position) \<Rightarrow>
                           if y < spacing
                           then (x, r_bottom hotspotRect + spacing, ''bottom'')
                           else p0);
                   p2 = (case p1 of (x, y, position) \<Rightarrow>
                           if x + r_width tooltipRect / 2 > vp_width viewport - spacing
                           then (r_right hotspotRect + spacing,
                                 r_top hotspotRect + r_height hotspotRect / 2
                                   - r_height tooltipRect / 2,
                                 ''left'')
                           else p1);
                   p3 = (case p2 of (x, y, position) \<Rightarrow>
                           if x - r_width tooltipRect / 2 < spacing
                           then (r_left hotspotRect - spacing,
                                 r_top hotspotRect + r_height hotspotRect / 2
                                   - r_height tooltipRect / 2,
                                 ''right'')
                           else p2)
               in (case p3 of (x, y, position) \<Rightarrow>
                     w\<lparr>tooltip := Some (t\<lparr>style_left := Px x, style_top := Px y,
                          style_transform :=
                            (if position = ''top'' \<or> position = ''bottom''
                             then ''translateX(-50%)'' else ''translateY(-50%)''),
                          className := [''tooltip'', ''visible'', position]\<rparr>)\<rparr>))"

definition property_key :: "string option \<Rightarrow> string" where
  "property_key k = (case k of None \<Rightarrow> ''undefined'' | Some s \<Rightarrow> s)"

text \<open>
  The names of the members of \<^verbatim>\<open>Object.prototype\<close>, and \<^verbatim>\<open>window.projectData[key]\<close>: an
  entry of the registry comes before an inherited member of the same name.
\<close>

definition object_prototype_keys :: "string list" where
  "object_prototype_keys =
     [''constructor'', ''__defineGetter__'', ''__defineSetter__'', ''hasOwnProperty'',
      ''__lookupGetter__'', ''__lookupSetter__'', ''isPrototypeOf'', ''propertyIsEnumerable'',
      ''toString'', ''valueOf'', ''__proto__'', ''toLocaleString'']"

definition projectData_get :: "world \<Rightarrow> string \<Rightarrow> registry_value option" where
  "projectData_get w key =
     (case projectData w key of
        Some info \<Rightarrow> Some (Entry info)
      | None \<Rightarrow> if key \<in> set object_prototype_keys then Some Inherited else None)"

definition showTooltip :: "hotspot \<Rightarrow> dom_event \<Rightarrow> world \<Rightarrow> thrown + world" where
  "showTooltip hotspot event w =
     (let projectId = hs_project w hotspot
      in case projectData_get w (property_key projectId) of
           None \<Rightarrow>
             Inr (w\<lparr>console := console w @ [ProjectDataNotFound (property_key projectId)]\<rparr>)
         | Some projectInfo \<Rightarrow>
             (case populateTooltip projectInfo (w\<lparr>activeHotspot := Some hotspot\<rparr>) of
                Inl e \<Rightarrow> Inl e
              | Inr w2 \<Rightarrow>
                  let w3 = positionTooltip hotspot event w2;
                      w4 = requestAnimationFrame w3
                  in Inr (w4\<lparr>hs_active := insert hotspot (hs_active w4)\<rparr>)))"

definition updateTooltipPosition :: "dom_event option \<Rightarrow> world \<Rightarrow> thrown + world" where
  "updateTooltipPosition event w =
     (case activeHotspot w of
        None \<Rightarrow> Inr w
      | Some a \<Rightarrow>
          (case tooltip w of
             None \<Rightarrow> Inl (TypeError, w)
           | Some t \<Rightarrow>
               if \<not> classList_contains ''visible'' (className t) then Inr w
               else
                 (case event of
                    None \<Rightarrow> Inr w
                  | Some ev \<Rightarrow>
                      if isTouchDevice w then Inr w
                      else
                        let spacing = (15::real);
                            tooltipRect = tooltip_rect w;
                            viewport = getViewportSize w;
                            left0 = clientX ev;
                            top0 = clientY ev - r_height tooltipRect - spacing;
                            left1 = (if left0 + r_width tooltipRect > vp_width viewport - spacing
                                     then vp_width viewport - r_width tooltipRect - spacing
                                     else left0);
                            left2 = (if left1 < spacing then spacing else left1);
                            top1 = (if top0 < spacing then clientY ev + spacing else top0)
                        in Inr (w\<lparr>tooltip := Some (t\<lparr>style_left := Px left2,
                                                        style_top := Px top1,
                                                        style_transform := ''none''\<rparr>)\<rparr>))))"

definition handleMouseMove :: "dom_event \<Rightarrow> hotspot \<Rightarrow> world \<Rightarrow> thrown + world" where
  "handleMouseMove event hotspot w =
     (if activeHotspot w = Some hotspot
      then (case tooltip w of
              None \<Rightarrow> Inl (TypeError, w)
            | Some t \<Rightarrow>
                if classList_contains ''visible'' (className t)
                then updateTooltipPosition (Some event) w
                else Inr w)
      else Inr w)"

definition handleTouchStart :: "dom_event \<Rightarrow> hotspot \<Rightarrow> world \<Rightarrow> thrown + world" where
  "handleTouchStart event hotspot w = showTooltip hotspot event w"

definition handleClick :: "dom_event \<Rightarrow> hotspot \<Rightarrow> world \<Rightarrow> thrown + world" where
  "handleClick event hotspot w =
     (if activeHotspot w = Some hotspot
      then (case tooltip w of
              None \<Rightarrow> Inl (TypeError, w)
            | Some t \<Rightarrow>
                if classList_contains ''visible'' (className t)
                then Inr (hideTooltip w)
                else showTooltip hotspot event w)
      else showTooltip hotspot event w)"

text \<open>
  \<^verbatim>\<open>this.tooltip.contains(event.target)\<close> and
  \<^verbatim>\<open>event.target.closest('.project-hotspot')\<close>, for a target that is an element.
\<close>

definition in_tooltip :: "element \<Rightarrow> bool" where
  "in_tooltip el = (el = ETooltip)"

definition in_hotspot :: "element \<Rightarrow> bool" where
  "in_hotspot el = (case el of EHotspot h \<Rightarrow> True | _ \<Rightarrow> False)"

definition handleDocumentClick :: "element \<Rightarrow> world \<Rightarrow> thrown + world" where
  "handleDocumentClick event_target w =
     (case tooltip w of
        None \<Rightarrow> Inl (TypeError, w)
      | Some t \<Rightarrow>
          if \<not> in_tooltip event_target \<and> \<not> in_hotspot event_target
          then Inr (hideTooltip w)
          else Inr w)"

subsection \<open>Binding, construction and teardown\<close>

text \<open>
  \<^verbatim>\<open>utils.debounce(() => this.updateTooltipPosition(), 250)\<close>: the function it returns
  (\<open>debounced_resize\<close>) and the closure \<^verbatim>\<open>later\<close> it schedules (\<open>ResizeCb\<close>, run by
  \<open>run_timer\<close> below).
\<close>

definition debounced_resize :: "world \<Rightarrow> world" where
  "debounced_resize w =
     (let w1 = clearTimeout (debounce_timeout w) w;
          (i, w2) = setTimeout ResizeCb 250 w1
      in w2\<lparr>debounce_timeout := Some i\<rparr>)"

definition bind_hotspot :: "hotspot \<Rightarrow> world \<Rightarrow> world" where
  "bind_hotspot hotspot w =
     (let w1 = addEventListener (THotspot hotspot) Mouseenter (Arrow (CbMouseEnter hotspot)) w;
          w2 = addEventListener (THotspot hotspot) Mouseleave (Arrow (CbMouseLeave hotspot)) w1;
          w3 = addEventListener (THotspot hotspot) Mousemove (Arrow (CbMouseMove hotspot)) w2;
          w4 = addEventListener (THotspot hotspot) Touchstart (Arrow (CbTouchStart hotspot)) w3
      in addEventListener (THotspot hotspot) Click (Arrow (CbClick hotspot)) w4)"

definition bindEvents :: "world \<Rightarrow> world" where
  "bindEvents w =
     (let w1 = fold bind_hotspot (hotspots w) w;
          w2 = addEventListener TDocument Click (Arrow CbDocumentClick) w1;
          w3 = addEventListener TWindow Scroll (Arrow CbScroll) w2
      in addEventListener TWindow Resize (Arrow CbResize) (w3\<lparr>debounce_timeout := None\<rparr>))"

text \<open>
  \<open>init el hs\<close>: \<open>el\<close> is what \<^verbatim>\<open>document.getElementById('projectTooltip')\<close> returns and
  \<open>hs\<close> what \<^verbatim>\<open>document.querySelectorAll('.project-hotspot')\<close> returns.
\<close>

definition init :: "tooltip_el option \<Rightarrow> hotspot list \<Rightarrow> world \<Rightarrow> world" where
  "init el hs w =
     (let w1 = w\<lparr>tooltip := el, hotspots := hs\<rparr>
      in case el of
           None \<Rightarrow> w1\<lparr>console := console w1 @ [TooltipElementNotFound]\<rparr>
         | Some t \<Rightarrow>
             let w2 = bindEvents w1
             in w2\<lparr>console := console w2 @ [Initialized (length (hotspots w2))]\<rparr>)"

definition TooltipManager_new :: "tooltip_el option \<Rightarrow> hotspot list \<Rightarrow> world \<Rightarrow> world" where
  "TooltipManager_new el hs w =
     init el hs (w\<lparr>tooltip := None, hotspots := [], activeHotspot := None,
                    hideTimeout := None, showTimeout := None\<rparr>)"

definition unbind_hotspot :: "hotspot \<Rightarrow> world \<Rightarrow> world" where
  "unbind_hotspot hotspot w =
     (let w1 = removeEventListener (THotspot hotspot) Mouseenter (Method M_handleMouseEnter) w;
          w2 = removeEventListener (THotspot hotspot) Mouseleave (Method M_handleMouseLeave) w1;
          w3 = removeEventListener (THotspot hotspot) Mousemove (Method M_handleMouseMove) w2;
          w4 = removeEventListener (THotspot hotspot) Touchstart (Method M_handleTouchStart) w3
      in removeEventListener (THotspot hotspot) Click (Method M_handleClick) w4)"

definition destroy :: "world \<Rightarrow> world" where
  "destroy w =
     (let w1 = hideTooltip w;
          w2 = fold unbind_hotspot (hotspots w1) w1;
          w3 = removeEventListener TDocument Click (Method M_handleDocumentClick) w2;
          w4 = removeEventListener TWindow Scroll (Method M_hideTooltip) w3
      in removeEventListener TWindow Resize (Method M_updateTooltipPosition) w4)"

subsection \<open>The event loop\<close>

text \<open>
  What the browser does with the outcome of a listener or a timer callback: an exception
  is reported on the console, and the state the callback left stands.
\<close>

definition report :: "thrown + world \<Rightarrow> world" where
  "report r =
     (case r of
        Inl (e, w) \<Rightarrow> w\<lparr>console := console w @ [Uncaught e]\<rparr>
      | Inr w \<Rightarrow> w)"

text \<open>
  Calling a registered function object. The arrow functions of \<^verbatim>\<open>bindEvents\<close> call the
  method they wrap; the scroll listener drops its argument, the resize listener is the
  debounced function. A bare method is never registered by \<^verbatim>\<open>bindEvents\<close>; called as a
  listener it would run with \<^verbatim>\<open>this\<close> bound to the element, which the model does
  not follow any further.
\<close>

definition invoke :: "funref \<Rightarrow> dom_event \<Rightarrow> element \<Rightarrow> world \<Rightarrow> stuck + world" where
  "invoke f event event_target w =
     (case f of
        Arrow c \<Rightarrow>
          Inr (case c of
                 CbMouseEnter h \<Rightarrow> handleMouseEnter event h w
               | CbMouseLeave h \<Rightarrow> handleMouseLeave event h w
               | CbMouseMove h \<Rightarrow> report (handleMouseMove event h w)
               | CbTouchStart h \<Rightarrow> report (handleTouchStart event h w)
               | CbClick h \<Rightarrow> report (handleClick event h w)
               | CbDocumentClick \<Rightarrow> report (handleDocumentClick event_target w)
               | CbScroll \<Rightarrow> hideTooltip w
               | CbResize \<Rightarrow> debounced_resize w)
      | Method m \<Rightarrow> Inl (BareMethod m))"

fun run_listeners :: "funref list \<Rightarrow> dom_event \<Rightarrow> element \<Rightarrow> world \<Rightarrow> stuck + world" where
  "run_listeners [] event event_target w = Inr w"
| "run_listeners (f # fs) event event_target w =
     (case invoke f event event_target w of
        Inl e \<Rightarrow> Inl e
      | Inr w' \<Rightarrow> run_listeners fs event event_target w')"

definition listeners_at :: "target \<Rightarrow> evtype \<Rightarrow> world \<Rightarrow> funref list" where
  "listeners_at tg ty w =
     map (\<lambda>l. snd (snd l)) (filter (\<lambda>l. fst l = tg \<and> fst (snd l) = ty) (listeners w))"

text \<open>\<^verbatim>\<open>handleClick\<close> calls \<^verbatim>\<open>event.stopPropagation()\<close> before anything else.\<close>

definition stops_propagation :: "funref \<Rightarrow> bool" where
  "stops_propagation f = (case f of Arrow (CbClick h) \<Rightarrow> True | _ \<Rightarrow> False)"

text \<open>
  The animation-frame callback of \<^verbatim>\<open>showTooltip\<close>, which adds the class \<^verbatim>\<open>visible\<close> to
  the tooltip, and an animation frame, which runs the callbacks that are queued.
\<close>

definition raf_callback :: "world \<Rightarrow> thrown + world" where
  "raf_callback w =
     (case tooltip w of
        None \<Rightarrow> Inl (TypeError, w)
      | Some t \<Rightarrow>
          Inr (w\<lparr>tooltip := Some (t\<lparr>className := classList_add ''visible'' (className t)\<rparr>)\<rparr>))"

definition run_frame :: "world \<Rightarrow> stuck + world" where
  "run_frame w = Inr (((\<lambda>x. report (raf_callback x)) ^^ raf_queue w) (w\<lparr>raf_queue := 0\<rparr>))"

text \<open>
  What the browser hands to the page: a pointer or touch event at a hotspot, a click at
  an element, a scroll or a resize of the window, or an animation frame. A click runs the
  listeners of the element it hits and then, unless one of them stopped the propagation,
  the document's, with that element as \<^verbatim>\<open>event.target\<close>; of the other events only the
  listeners of the hotspot or of the window matter here. The scroll and resize listeners
  do not look at their event.
\<close>

datatype input =
    PointerEnter hotspot dom_event
  | PointerLeave hotspot dom_event
  | PointerMove hotspot dom_event
  | Touch hotspot dom_event
  | ClickOn element dom_event
  | ScrollView
  | ResizeView
  | AnimationFrame

definition plain_event :: dom_event where
  "plain_event = \<lparr>clientX = 0, clientY = 0\<rparr>"

definition deliver :: "input \<Rightarrow> world \<Rightarrow> stuck + world" where
  "deliver i w =
     (case i of
        PointerEnter h event \<Rightarrow>
          run_listeners (listeners_at (THotspot h) Mouseenter w) event (EHotspot h) w
      | PointerLeave h event \<Rightarrow>
          run_listeners (listeners_at (THotspot h) Mouseleave w) event (EHotspot h) w
      | PointerMove h event \<Rightarrow>
          run_listeners (listeners_at (THotspot h) Mousemove w) event (EHotspot h) w
      | Touch h event \<Rightarrow>
          run_listeners (listeners_at (THotspot h) Touchstart w) event (EHotspot h) w
      | ClickOn el event \<Rightarrow>
          (let fs = (case el of EHotspot h \<Rightarrow> listeners_at (THotspot h) Click w | _ \<Rightarrow> [])
           in (case run_listeners fs event el w of
                 Inl e \<Rightarrow> Inl e
               | Inr w1 \<Rightarrow>
                   (if list_ex stops_propagation fs then Inr w1
                    else run_listeners (listeners_at TDocument Click w1) event el w1)))
      | ScrollView \<Rightarrow>
          run_listeners (listeners_at TWindow Scroll w) plain_event EOther w
      | ResizeView \<Rightarrow>
          run_listeners (listeners_at TWindow Resize w) plain_event EOther w
      | AnimationFrame \<Rightarrow> run_frame w)"

text \<open>Running the closure of a timer; these closures are all the program's own.\<close>

definition run_timer :: "timer_cb \<Rightarrow> world \<Rightarrow> stuck + world" where
  "run_timer c w =
     Inr (case c of
            ShowCb hotspot event \<Rightarrow> report (showTooltip hotspot event w)
          | HideCb \<Rightarrow> hideTooltip w
          | ResizeCb \<Rightarrow>
              report (updateTooltipPosition None (clearTimeout (debounce_timeout w) w)))"

fun earliest_timer :: "timer list \<Rightarrow> timer option" where
  "earliest_timer [] = None"
| "earliest_timer (x # xs) =
     (case earliest_timer xs of
        None \<Rightarrow> Some x
      | Some y \<Rightarrow> if due y < due x then Some y else Some x)"

definition next_timer :: "nat \<Rightarrow> world \<Rightarrow> timer option" where
  "next_timer limit w = earliest_timer (filter (\<lambda>t. due t \<le> limit) (timers w))"

definition pop_timer :: "timer \<Rightarrow> world \<Rightarrow> world" where
  "pop_timer t w =
     w\<lparr>timers := filter (\<lambda>x. tid x \<noteq> tid t) (timers w), now := max (now w) (due t)\<rparr>"

lemma earliest_timer_mem: "earliest_timer xs = Some t \<Longrightarrow> t \<in> set xs"
  by (induction xs arbitrary: t) (auto split: option.splits if_splits)

lemma next_timer_mem: "next_timer limit w = Some t \<Longrightarrow> t \<in> set (timers w)"
  using earliest_timer_mem [of "filter (\<lambda>t. due t \<le> limit) (timers w)" t]
  by (simp add: next_timer_def)

lemma timers_clearTimeout_le: "length (timers (clearTimeout h w)) \<le> length (timers w)"
  by (simp add: clearTimeout_def split: option.splits)

lemma timers_hideTooltip_le: "length (timers (hideTooltip w)) \<le> length (timers w)"
proof (cases "tooltip w")
  case None
  then show ?thesis by (simp add: hideTooltip_def)
next
  case (Some t)
  then show ?thesis
    by (auto simp: hideTooltip_def Let_def clearTimeout_def split: option.splits
        intro: le_trans [OF length_filter_le length_filter_le])
qed

lemma timers_positionTooltip: "timers (positionTooltip h ev w) = timers w"
  by (simp add: positionTooltip_def Let_def split: option.splits prod.splits)

lemma timers_populateTooltip:
  "timers (report (populateTooltip v w)) = timers w"
  by (simp add: populateTooltip_def report_def Let_def split: option.splits)

lemma timers_showTooltip: "timers (report (showTooltip h ev w)) = timers w"
proof (cases "projectData_get w (property_key (hs_project w h))")
  case None
  then show ?thesis by (simp add: showTooltip_def report_def)
next
  case (Some v)
  show ?thesis
  proof (cases "populateTooltip v (w\<lparr>activeHotspot := Some h\<rparr>)")
    case (Inl x)
    with Some timers_populateTooltip [of v "w\<lparr>activeHotspot := Some h\<rparr>"] show ?thesis
      by (simp add: showTooltip_def)
  next
    case (Inr w2)
    with Some timers_populateTooltip [of v "w\<lparr>activeHotspot := Some h\<rparr>"] show ?thesis
      by (simp add: showTooltip_def report_def Let_def requestAnimationFrame_def
          timers_positionTooltip)
  qed
qed

lemma timers_updateTooltipPosition:
  "timers (report (updateTooltipPosition e w)) = timers w"
  by (simp add: updateTooltipPosition_def report_def Let_def split: option.splits)

lemma timers_run_timer_le:
  "run_timer c w = Inr w' \<Longrightarrow> length (timers w') \<le> length (timers w)"
proof (cases c)
  case (ShowCb h ev)
  then show "run_timer c w = Inr w' \<Longrightarrow> ?thesis"
    by (auto simp: run_timer_def timers_showTooltip)
next
  case HideCb
  then show "run_timer c w = Inr w' \<Longrightarrow> ?thesis"
    using timers_hideTooltip_le [of w] by (auto simp: run_timer_def)
next
  case ResizeCb
  then show "run_timer c w = Inr w' \<Longrightarrow> ?thesis"
    using timers_clearTimeout_le [of "debounce_timeout w" w]
    by (auto simp: run_timer_def timers_updateTooltipPosition)
qed

lemma timers_pop_timer_less:
  "t \<in> set (timers w) \<Longrightarrow> length (timers (pop_timer t w)) < length (timers w)"
  by (auto simp: pop_timer_def intro!: length_filter_less [of t])

text \<open>
  The event loop up to time \<open>limit\<close>: while a timer is due by then, the earliest one is
  taken off the list and its closure is run at its due time. No closure of this program
  starts a timer, so the loop ends.
\<close>

function fire_until :: "nat \<Rightarrow> world \<Rightarrow> stuck + world" where
  "fire_until limit w =
     (case next_timer limit w of
        None \<Rightarrow> Inr (w\<lparr>now := max (now w) limit\<rparr>)
      | Some t \<Rightarrow>
          (case run_timer (cb t) (pop_timer t w) of
             Inl e \<Rightarrow> Inl e
           | Inr w' \<Rightarrow> fire_until limit w'))"
  by pat_completeness auto

termination
proof (relation "measure (\<lambda>(limit, w). length (timers w))")
  show "wf (measure (\<lambda>(limit, w). length (timers w)))" by simp
next
  fix limit w t w'
  assume nt: "next_timer limit w = Some t"
    and rt: "run_timer (cb t) (pop_timer t w) = Inr w'"
  have "length (timers w') \<le> length (timers (pop_timer t w))"
    using rt by (rule timers_run_timer_le)
  also have "\<dots> < length (timers w)"
    using nt by (intro timers_pop_timer_less next_timer_mem)
  finally show "((limit, w'), (limit, w)) \<in> measure (\<lambda>(limit, w). length (timers w))"
    by simp
qed

declare fire_until.simps [simp del]

text \<open>
  A run: each input comes with the time in milliseconds that passes before it; the
  timers due in that time are run first.
\<close>

definition advance :: "nat \<Rightarrow> world \<Rightarrow> stuck + world" where
  "advance d w = fire_until (now w + d) w"

fun run :: "(nat \<times> input) list \<Rightarrow> world \<Rightarrow> stuck + world" where
  "run [] w = Inr w"
| "run ((d, i) # rest) w =
     (case advance d w of
        Inl e \<Rightarrow> Inl e
      | Inr w1 \<Rightarrow>
          (case deliver i w1 of
             Inl e \<Rightarrow> Inl e
           | Inr w2 \<Rightarrow> run rest w2))"

subsection \<open>A page to run the manager on\<close>

text \<open>The registry of \<^verbatim>\<open>scripts/main.js\<close>.\<close>

definition project1 :: project_info where
  "project1 =
     \<lparr>title = ''E-Commerce Platform'',
      description = ''Full-stack online shopping platform with payment integration, user authentication, and admin dashboard.'',
      tech = [''React'', ''Node.js'', ''MongoDB'', ''Stripe''],
      liveUrl = Some ''https://example.com'',
      githubUrl = Some ''https://github.com/username/project1''\<rparr>"

definition project2 :: project_info where
  "project2 =
     \<lparr>title = ''Weather Dashboard'',
      description = ''Real-time weather application with geolocation, forecasts, and interactive maps.'',
      tech = [''Vue.js'', ''API Integration'', ''Chart.js''],
      liveUrl = Some ''https://example.com'',
      githubUrl = Some ''https://github.com/username/project2''\<rparr>"

definition project3 :: project_info where
  "project3 =
     \<lparr>title = ''Task Management App'',
      description = ''Collaborative project management tool with real-time updates, file sharing, and team chat.'',
      tech = [''Angular'', ''Firebase'', ''WebSocket''],
      liveUrl = Some ''https://example.com'',
      githubUrl = Some ''https://github.com/username/project3''\<rparr>"

definition project4 :: project_info where
  "project4 =
     \<lparr>title = ''AI Image Generator'',
      description = ''Machine learning powered image generation tool with custom training models.'',
      tech = [''Python'', ''TensorFlow'', ''Flask'', ''AWS''],
      liveUrl = Some ''https://example.com'',
      githubUrl = Some ''https://github.com/username/project4''\<rparr>"

definition project5 :: project_info where
  "project5 =
     \<lparr>title = ''Social Media Analytics'',
      description = ''Data visualization platform for social media metrics with predictive analytics.'',
      tech = [''D3.js'', ''Python'', ''PostgreSQL'', ''Docker''],
      liveUrl = Some ''https://example.com'',
      githubUrl = Some ''https://github.com/username/project5''\<rparr>"

definition main_projectData :: "string \<Rightarrow> project_info option" where
  "main_projectData = map_of
     [(''project1'', project1), (''project2'', project2), (''project3'', project3),
      (''project4'', project4), (''project5'', project5)]"

text \<open>
  A desktop page, 1280 by 800 pixels, no touch input: a tooltip element with all five
  descendants, hotspots 1 and 2 bound to \<^verbatim>\<open>project1\<close> and \<^verbatim>\<open>project2\<close>, hotspot 3
  bound to an identifier the registry does not know. The tooltip measures 200 by 100.
\<close>

definition demo_tooltip :: tooltip_el where
  "demo_tooltip =
     \<lparr>className = [''tooltip''], style_left = Unset, style_top = Unset, style_bottom = Unset,
      style_transform = [], title_el = Some [], description_el = Some [], tech_el = Some [],
      live_link = Some \<lparr>href = [], display = []\<rparr>,
      github_link = Some \<lparr>href = [], display = []\<rparr>\<rparr>"

definition demo_project :: "hotspot \<Rightarrow> string option" where
  "demo_project h =
     (if h = 1 then Some ''project1'' else if h = 2 then Some ''project2''
      else if h = 3 then Some ''project9'' else None)"

definition demo_rect :: "hotspot \<Rightarrow> rect" where
  "demo_rect h = \<lparr>r_left = 200 * real h, r_top = 300, r_width = 40, r_height = 40\<rparr>"

definition demo_browser :: world where
  "demo_browser =
     \<lparr>tooltip = None, hotspots = [], activeHotspot = None, hideTimeout = None,
      showTimeout = None, debounce_timeout = None,
      hs_project = demo_project, hs_rect = demo_rect, hs_active = {},
      tooltip_rect = \<lparr>r_left = 0, r_top = 0, r_width = 200, r_height = 100\<rparr>,
      projectData = main_projectData,
      clientWidth = Some 1280, innerWidth = Some 1280,
      clientHeight = Some 800, innerHeight = Some 800,
      ontouchstart_in_window = False, maxTouchPoints = 0,
      listeners = [], timers = [], next_tid = 1, now = 0, raf_queue = 0, console = []\<rparr>"

definition demo :: world where
  "demo = TooltipManager_new (Some demo_tooltip) [1, 2, 3] demo_browser"

definition mouse_at :: "real \<Rightarrow> real \<Rightarrow> dom_event" where
  "mouse_at x y = \<lparr>clientX = x, clientY = y\<rparr>"

text \<open>What an observer of the page sees of the tooltip.\<close>

definition visible :: "world \<Rightarrow> bool" where
  "visible w = (case tooltip w of None \<Rightarrow> False | Some t \<Rightarrow> classList_contains ''visible'' (className t))"

text \<open>The page \<open>demo\<close> after a click on hotspot 1.\<close>

definition demo_shown :: world where
  "demo_shown = projr (deliver (ClickOn (EHotspot 1) (mouse_at 220 320)) demo)"

text \<open>
  The box the tooltip takes after a pointer-follow update (left, top, right and bottom
  edge: the inline offsets, with the transform set to none, and the measured size), and
  whether it lies in the viewport.
\<close>

definition follow_box :: "world \<Rightarrow> (real \<times> real \<times> real \<times> real) option" where
  "follow_box w =
     (case tooltip w of
        None \<Rightarrow> None
      | Some t \<Rightarrow>
          (case (style_left t, style_top t) of
             (Px x, Px y) \<Rightarrow>
               Some (x, y, x + r_width (tooltip_rect w), y + r_height (tooltip_rect w))
           | _ \<Rightarrow> None))"

definition inside_viewport :: "world \<Rightarrow> bool" where
  "inside_viewport w =
     (case follow_box w of
        None \<Rightarrow> False
      | Some (x0, y0, x1, y1) \<Rightarrow>
          0 \<le> x0 \<and> x1 \<le> vp_width (getViewportSize w) \<and>
          0 \<le> y0 \<and> y1 \<le> vp_height (getViewportSize w))"

subsection \<open>Properties of states and example runs\<close>

text \<open>
  The listeners that \<^verbatim>\<open>bindEvents\<close> registers for one hotspot and for a list of hotspots,
  and the pages whose listener table holds exactly these (\<open>bound\<close>): the pages on which
  the constructor has run once.
\<close>

definition hotspot_listeners :: "hotspot \<Rightarrow> (target \<times> evtype \<times> funref) list" where
  "hotspot_listeners h =
     [(THotspot h, Mouseenter, Arrow (CbMouseEnter h)),
      (THotspot h, Mouseleave, Arrow (CbMouseLeave h)),
      (THotspot h, Mousemove, Arrow (CbMouseMove h)),
      (THotspot h, Touchstart, Arrow (CbTouchStart h)),
      (THotspot h, Click, Arrow (CbClick h))]"

definition bound_listeners :: "hotspot list \<Rightarrow> (target \<times> evtype \<times> funref) list" where
  "bound_listeners hs =
     concat (map hotspot_listeners hs) @
     [(TDocument, Click, Arrow CbDocumentClick), (TWindow, Scroll, Arrow CbScroll),
      (TWindow, Resize, Arrow CbResize)]"

definition bound :: "world \<Rightarrow> bool" where
  "bound w = (distinct (hotspots w) \<and> listeners w = bound_listeners (hotspots w))"

text \<open>What each input does on a page the manager is bound to.\<close>

definition handle :: "input \<Rightarrow> world \<Rightarrow> world" where
  "handle i w =
     (case i of
        PointerEnter h event \<Rightarrow>
          if h \<in> set (hotspots w) then handleMouseEnter event h w else w
      | PointerLeave h event \<Rightarrow>
          if h \<in> set (hotspots w) then handleMouseLeave event h w else w
      | PointerMove h event \<Rightarrow>
          if h \<in> set (hotspots w) then report (handleMouseMove event h w) else w
      | Touch h event \<Rightarrow>
          if h \<in> set (hotspots w) then report (handleTouchStart event h w) else w
      | ClickOn el event \<Rightarrow>
          (case el of
             EHotspot h \<Rightarrow>
               if h \<in> set (hotspots w) then report (handleClick event h w)
               else report (handleDocumentClick el w)
           | _ \<Rightarrow> report (handleDocumentClick el w))
      | ScrollView \<Rightarrow> hideTooltip w
      | ResizeView \<Rightarrow> debounced_resize w
      | AnimationFrame \<Rightarrow> ((\<lambda>x. report (raf_callback x)) ^^ raf_queue w) (w\<lparr>raf_queue := 0\<rparr>))"

text \<open>
  The outstanding timers of the two kinds the manager starts, and the ones it can still
  cancel: a timer is \<open>held\<close> when the handle field of its kind holds its identifier.
  \<open>alternating hs inside\<close> says of a sequence of inputs that pointer-enter and pointer-leave
  events at the hotspots \<open>hs\<close> alternate, starting with the pointer inside a hotspot or
  not; \<open>settled\<close> is the invariant such sequences keep.
\<close>

definition is_show :: "timer \<Rightarrow> bool" where
  "is_show t = (case cb t of ShowCb h e \<Rightarrow> True | _ \<Rightarrow> False)"

definition is_hide :: "timer \<Rightarrow> bool" where
  "is_hide t = (cb t = HideCb)"

definition show_timers :: "world \<Rightarrow> timer list" where
  "show_timers w = filter is_show (timers w)"

definition hide_timers :: "world \<Rightarrow> timer list" where
  "hide_timers w = filter is_hide (timers w)"

definition held :: "world \<Rightarrow> timer \<Rightarrow> bool" where
  "held w t =
     (case cb t of
        ShowCb h e \<Rightarrow> showTimeout w = Some (tid t)
      | HideCb \<Rightarrow> hideTimeout w = Some (tid t)
      | ResizeCb \<Rightarrow> True)"

definition covered :: "world \<Rightarrow> bool" where
  "covered w = list_all (held w) (timers w)"

fun alternating :: "hotspot list \<Rightarrow> bool \<Rightarrow> input list \<Rightarrow> bool" where
  "alternating hs inside [] = True"
| "alternating hs inside (PointerEnter h e # rest) =
     (if h \<in> set hs then \<not> inside \<and> alternating hs True rest else alternating hs inside rest)"
| "alternating hs inside (PointerLeave h e # rest) =
     (if h \<in> set hs then inside \<and> alternating hs False rest else alternating hs inside rest)"
| "alternating hs inside (i # rest) = alternating hs inside rest"

definition settled :: "bool \<Rightarrow> world \<Rightarrow> bool" where
  "settled inside w =
     (bound w \<and> tooltip w \<noteq> None \<and> covered w
      \<and> (if inside then hide_timers w = [] \<and> length (show_timers w) \<le> 1
          else show_timers w = [] \<and> length (hide_timers w) \<le> 1))"

text \<open>
  \<open>frame w w'\<close>: from \<open>w\<close> to \<open>w'\<close> the listeners, the hotspots and the two timer
  handles are unchanged, the tooltip element is still there, and the timers of \<open>w'\<close> are
  some of the timers of \<open>w\<close>.
\<close>

definition thinned :: "timer list \<Rightarrow> timer list \<Rightarrow> bool" where
  "thinned xs ys = (\<exists>P. ys = filter P xs)"

definition frame :: "world \<Rightarrow> world \<Rightarrow> bool" where
  "frame w w' =
     (listeners w' = listeners w \<and> hotspots w' = hotspots w \<and> showTimeout w' = showTimeout w
      \<and> hideTimeout w' = hideTimeout w \<and> tooltip w' \<noteq> None \<and> thinned (timers w) (timers w'))"

text \<open>
  \<open>run_then_wait tr d\<close>: the inputs \<open>tr\<close>, then \<open>d\<close> milliseconds in which nothing
  happens but timers.
\<close>

definition run_then_wait :: "(nat \<times> input) list \<Rightarrow> nat \<Rightarrow> world \<Rightarrow> stuck + world" where
  "run_then_wait tr d w = (case run tr w of Inl e \<Rightarrow> Inl e | Inr w1 \<Rightarrow> advance d w1)"

text \<open>
  While only timers of the debounced resize listener are due, the event loop changes
  nothing but the list of timers and the clock. A timer that is not due stays when it
  shares its identifier with no due timer and is not the one the resize listener holds.
\<close>

definition stays :: "world \<Rightarrow> nat \<Rightarrow> timer \<Rightarrow> bool" where
  "stays w limit t =
     (limit < due t \<and> Some (tid t) \<noteq> debounce_timeout w
      \<and> list_all (\<lambda>u. limit < due u \<or> tid u \<noteq> tid t) (timers w))"

text \<open>
  A state is \<open>quiet\<close> when no show or hide timer is outstanding: the only timers are those
  of the debounced resize listener, and, as in every state the browser produces, their
  identifiers and the handle the resize listener holds were handed out before.
\<close>

definition quiet :: "world \<Rightarrow> bool" where
  "quiet w =
     (list_all (\<lambda>t. cb t = ResizeCb \<and> tid t < next_tid w) (timers w)
      \<and> (case debounce_timeout w of None \<Rightarrow> True | Some i \<Rightarrow> i < next_tid w))"


text \<open>
  Runs on the page \<open>demo\<close>: a pointer that visits hotspot 1 and hotspot 2 in turn, two
  pointer-enter events with no pointer-leave between them (followed by a scroll), and two
  clicks on different hotspots. \<open>demo_leaving\<close> is the page 50 ms after the pointer has
  shown the tooltip of hotspot 1 by hovering and at the moment it leaves; \<open>demo_tall\<close> is
  \<open>demo_shown\<close> with a tooltip 400 pixels high.
\<close>

definition hover_trace :: "(nat \<times> input) list" where
  "hover_trace =
     [(0, PointerEnter 1 (mouse_at 210 310)), (100, PointerLeave 1 (mouse_at 190 310)),
      (50, PointerEnter 2 (mouse_at 410 310)), (400, ClickOn (EHotspot 2) (mouse_at 415 310)),
      (10, PointerLeave 2 (mouse_at 450 310)), (20, ScrollView)]"

definition double_enter :: "(nat \<times> input) list" where
  "double_enter = [(0, PointerEnter 1 (mouse_at 210 310)), (100, PointerEnter 2 (mouse_at 410 310))]"

definition scroll_trace :: "(nat \<times> input) list" where
  "scroll_trace = double_enter @ [(0, ScrollView)]"

definition two_clicks :: "(nat \<times> input) list" where
  "two_clicks =
     [(0, ClickOn (EHotspot 1) (mouse_at 220 320)), (500, ClickOn (EHotspot 2) (mouse_at 420 320))]"

definition demo_leaving :: world where
  "demo_leaving =
     projr (run [(0, PointerEnter 1 (mouse_at 210 310)), (350, PointerLeave 1 (mouse_at 190 310))] demo)"

definition demo_tall :: world where
  "demo_tall = demo_shown\<lparr>tooltip_rect := \<lparr>r_left = 120, r_top = 185, r_width = 200, r_height = 400\<rparr>\<rparr>"

text \<open>
  \<open>demo_inherited\<close> is the page \<open>demo\<close> with hotspot 3 carrying
  \<^verbatim>\<open>data-project="constructor"\<close>: the registry has no entry of that name, and
  \<^verbatim>\<open>Object.prototype\<close> has a member of that name. \<open>demo_inherited_bare\<close> is the same page
  with a tooltip element that has no \<^verbatim>\<open>.tooltip-tech\<close> descendant.
\<close>

definition demo_inherited :: world where
  "demo_inherited = demo\<lparr>hs_project := (hs_project demo)(3 := Some ''constructor'')\<rparr>"

definition demo_inherited_bare :: world where
  "demo_inherited_bare = demo_inherited\<lparr>tooltip := Some (demo_tooltip\<lparr>tech_el := None\<rparr>)\<rparr>"

section \<open>Evaluation\<close>

lemma fire_until_None:
  "next_timer limit w = None \<Longrightarrow> fire_until limit w = Inr (w\<lparr>now := max (now w) limit\<rparr>)"
  by (simp add: fire_until.simps)

lemma fire_until_Some:
  "next_timer limit w = Some t \<Longrightarrow>
   fire_until limit w =
     (case run_timer (cb t) (pop_timer t w) of Inl e \<Rightarrow> Inl e | Inr w' \<Rightarrow> fire_until limit w')"
  by (simp add: fire_until.simps)

lemmas method_defs =
  handleClick_def handleMouseEnter_def handleMouseLeave_def handleMouseMove_def
  handleTouchStart_def handleDocumentClick_def showTooltip_def hideTooltip_def
  populateTooltip_def positionTooltip_def updateTooltipPosition_def clearTimeout_def
  setTimeout_def requestAnimationFrame_def classList_contains_def classList_add_def
  classList_remove_def property_key_def getViewportSize_def isTouchDevice_def or_zero_def
  in_tooltip_def in_hotspot_def showDelay_def hideDelay_def debounced_resize_def
  r_right_def r_bottom_def report_def projectData_get_def object_prototype_keys_def
  info_title_def info_description_def info_tech_def info_liveUrl_def info_githubUrl_def
  text_of_def raf_callback_def Let_def

lemmas loop_defs =
  deliver_def listeners_at_def invoke_def stops_propagation_def run_frame_def
  advance_def next_timer_def pop_timer_def run_timer_def fire_until_None fire_until_Some

lemmas demo_defs =
  demo_def demo_browser_def demo_project_def demo_rect_def demo_tooltip_def
  main_projectData_def mouse_at_def TooltipManager_new_def init_def bindEvents_def
  bind_hotspot_def addEventListener_def

lemma demo_shown_eq:
  "demo_shown =
     demo\<lparr>tooltip := Some (demo_tooltip\<lparr>
              title_el := Some (title project1),
              description_el := Some (description project1),
              tech_el := Some (concat (map tech_tag (tech project1))),
              live_link := Some (set_link (liveUrl project1) \<lparr>href = [], display = []\<rparr>),
              github_link := Some (set_link (githubUrl project1) \<lparr>href = [], display = []\<rparr>),
              style_left := Px 220, style_top := Px 185,
              style_transform := ''translateX(-50%)'',
              className := [''tooltip'', ''visible'', ''top'']\<rparr>),
          activeHotspot := Some 1, hs_active := {1}, raf_queue := 1\<rparr>"
  by (simp add: demo_shown_def demo_defs loop_defs method_defs)

section \<open>The event loop and the listener table\<close>

lemma fire_until_rule:
  assumes "I w"
    and "\<And>w t. I w \<Longrightarrow> next_timer limit w = Some t \<Longrightarrow>
                 \<exists>w'. run_timer (cb t) (pop_timer t w) = Inr w' \<and> I w'"
    and "\<And>w. I w \<Longrightarrow> next_timer limit w = None \<Longrightarrow> Q (w\<lparr>now := max (now w) limit\<rparr>)"
  shows "\<exists>w'. fire_until limit w = Inr w' \<and> Q w'"
  using assms
proof (induction limit w rule: fire_until.induct)
  case (1 limit w)
  note inv = "1.prems"(1) and step = "1.prems"(2) and fin = "1.prems"(3)
  show ?case
  proof (cases "next_timer limit w")
    case None
    have "Q (w\<lparr>now := max (now w) limit\<rparr>)" using inv None by (rule fin)
    then show ?thesis by (simp add: fire_until_None [OF None])
  next
    case (Some t)
    from step [OF inv Some] obtain w1 where
      r: "run_timer (cb t) (pop_timer t w) = Inr w1" and i: "I w1" by blast
    have "\<exists>w'. fire_until limit w1 = Inr w' \<and> Q w'"
      using Some r i step fin by (rule "1.IH")
    then show ?thesis
      by (simp add: fire_until_Some [OF Some] r)
  qed
qed



lemma next_timer_due: "next_timer limit w = Some t \<Longrightarrow> due t \<le> limit"
  using earliest_timer_mem [of "filter (\<lambda>t. due t \<le> limit) (timers w)" t]
  by (simp add: next_timer_def)

lemma fold_bind_hotspot:
  "fold bind_hotspot hs w = w\<lparr>listeners := listeners w @ concat (map hotspot_listeners hs)\<rparr>"
  by (induction hs arbitrary: w)
     (simp_all add: bind_hotspot_def addEventListener_def hotspot_listeners_def Let_def)

lemma bindEvents_eq:
  "bindEvents w =
     w\<lparr>listeners := listeners w @ bound_listeners (hotspots w), debounce_timeout := None\<rparr>"
  by (simp add: bindEvents_def fold_bind_hotspot addEventListener_def bound_listeners_def Let_def)

lemma TooltipManager_new_eq:
  "TooltipManager_new (Some t) hs w =
     w\<lparr>tooltip := Some t, hotspots := hs, activeHotspot := None, hideTimeout := None,
       showTimeout := None, debounce_timeout := None,
       listeners := listeners w @ bound_listeners hs,
       console := console w @ [Initialized (length hs)]\<rparr>"
  by (simp add: TooltipManager_new_def init_def bindEvents_eq Let_def)

lemma filter_hotspot_listeners:
  "distinct hs \<Longrightarrow>
   map (\<lambda>l. snd (snd l)) (filter (\<lambda>l. fst l = THotspot h \<and> fst (snd l) = ty)
      (concat (map hotspot_listeners hs))) =
   (if h \<in> set hs
    then (case ty of Mouseenter \<Rightarrow> [Arrow (CbMouseEnter h)]
          | Mouseleave \<Rightarrow> [Arrow (CbMouseLeave h)]
          | Mousemove \<Rightarrow> [Arrow (CbMouseMove h)]
          | Touchstart \<Rightarrow> [Arrow (CbTouchStart h)]
          | Click \<Rightarrow> [Arrow (CbClick h)]
          | _ \<Rightarrow> [])
    else [])"
  by (induction hs) (auto simp: hotspot_listeners_def split: evtype.splits)

lemma filter_other_listeners:
  "tg = TDocument \<or> tg = TWindow \<Longrightarrow>
   filter (\<lambda>l. fst l = tg \<and> fst (snd l) = ty) (concat (map hotspot_listeners hs)) = []"
  by (induction hs) (auto simp: hotspot_listeners_def)

lemma listeners_at_hotspot:
  "bound w \<Longrightarrow>
   listeners_at (THotspot h) ty w =
   (if h \<in> set (hotspots w)
    then (case ty of Mouseenter \<Rightarrow> [Arrow (CbMouseEnter h)]
          | Mouseleave \<Rightarrow> [Arrow (CbMouseLeave h)]
          | Mousemove \<Rightarrow> [Arrow (CbMouseMove h)]
          | Touchstart \<Rightarrow> [Arrow (CbTouchStart h)]
          | Click \<Rightarrow> [Arrow (CbClick h)]
          | _ \<Rightarrow> [])
    else [])"
  by (simp add: bound_def listeners_at_def bound_listeners_def filter_hotspot_listeners)

lemma listeners_at_document:
  "bound w \<Longrightarrow> listeners_at TDocument ty w = (if ty = Click then [Arrow CbDocumentClick] else [])"
  by (auto simp: bound_def listeners_at_def bound_listeners_def filter_other_listeners)

lemma listeners_at_window:
  "bound w \<Longrightarrow>
   listeners_at TWindow ty w =
     (if ty = Scroll then [Arrow CbScroll] else if ty = Resize then [Arrow CbResize] else [])"
  by (auto simp: bound_def listeners_at_def bound_listeners_def filter_other_listeners)

lemma deliver_bound: "bound w \<Longrightarrow> deliver i w = Inr (handle i w)"
  by (cases i)
     (auto simp: deliver_def handle_def listeners_at_hotspot listeners_at_document
        listeners_at_window invoke_def stops_propagation_def run_frame_def
        split: element.splits sum.splits)

section \<open>Outstanding timers\<close>

lemma length_filter_filter_le:
  "length (filter Q (filter P xs)) \<le> length (filter Q xs)"
  by (induction xs) auto

lemma held_cong:
  "showTimeout w' = showTimeout w \<Longrightarrow> hideTimeout w' = hideTimeout w \<Longrightarrow> held w' = held w"
  by (rule ext) (simp add: held_def split: timer_cb.splits)

lemma settled_filter:
  assumes "settled b w"
    and "listeners w' = listeners w" and "hotspots w' = hotspots w" and "tooltip w' \<noteq> None"
    and "showTimeout w' = showTimeout w" and "hideTimeout w' = hideTimeout w"
    and "timers w' = filter P (timers w)"
  shows "settled b w'"
proof -
  have len: "length (show_timers w') \<le> length (show_timers w)"
            "length (hide_timers w') \<le> length (hide_timers w)"
    unfolding show_timers_def hide_timers_def assms(7) by (rule length_filter_filter_le)+
  have cov: "covered w'"
    using assms(1) by (auto simp: settled_def covered_def held_cong [OF assms(5,6)] assms(7) list_all_iff)
  have bnd: "bound w'"
    using assms(1-3) by (simp add: settled_def bound_def)
  show ?thesis
    using assms(1,4) len cov bnd by (auto simp: settled_def split: if_splits)
qed

lemma settled_same:
  assumes "settled b w"
    and "listeners w' = listeners w" and "hotspots w' = hotspots w" and "tooltip w' \<noteq> None"
    and "showTimeout w' = showTimeout w" and "hideTimeout w' = hideTimeout w"
    and "timers w' = timers w"
  shows "settled b w'"
  using settled_filter [OF assms(1-6), of "\<lambda>t. True"] assms(7) by simp

lemma thinned_refl [simp]: "thinned xs xs"
  unfolding thinned_def by (rule exI [of _ "\<lambda>x. True"]) simp

lemma thinned_filter [simp]: "thinned xs ys \<Longrightarrow> thinned xs (filter Q ys)"
  unfolding thinned_def by (auto simp: filter_filter intro: exI)

lemma settled_frame: "settled b w \<Longrightarrow> frame w w' \<Longrightarrow> settled b w'"
  unfolding frame_def thinned_def by (auto intro: settled_filter)

lemma frame_trans: "frame w w' \<Longrightarrow> frame w' w'' \<Longrightarrow> frame w w''"
  unfolding frame_def thinned_def by (auto simp: filter_filter intro: exI)

lemma frame_positionTooltip: "tooltip w \<noteq> None \<Longrightarrow> frame w (positionTooltip h ev w)"
  by (auto simp: frame_def positionTooltip_def Let_def split: prod.splits)

lemma frame_showTooltip:
  "tooltip w \<noteq> None \<Longrightarrow> frame w (report (showTooltip h ev w))"
  by (auto simp: frame_def report_def showTooltip_def populateTooltip_def positionTooltip_def
      requestAnimationFrame_def Let_def split: option.splits prod.splits)

lemma frame_hideTooltip: "tooltip w \<noteq> None \<Longrightarrow> frame w (hideTooltip w)"
  by (auto simp: frame_def hideTooltip_def clearTimeout_def Let_def split: option.splits)

lemma frame_updateTooltipPosition:
  "tooltip w \<noteq> None \<Longrightarrow> frame w (report (updateTooltipPosition e w))"
  by (auto simp: frame_def report_def updateTooltipPosition_def Let_def split: option.splits)

lemma frame_handleMouseMove:
  "tooltip w \<noteq> None \<Longrightarrow> frame w (report (handleMouseMove ev h w))"
  using frame_updateTooltipPosition [of w "Some ev"]
  by (auto simp: handleMouseMove_def frame_def report_def)

lemma frame_handleClick:
  "tooltip w \<noteq> None \<Longrightarrow> frame w (report (handleClick ev h w))"
  using frame_showTooltip [of w h ev] frame_hideTooltip [of w]
  by (auto simp: handleClick_def report_def)

lemma frame_handleDocumentClick:
  "tooltip w \<noteq> None \<Longrightarrow> frame w (report (handleDocumentClick el w))"
  using frame_hideTooltip [of w]
  by (auto simp: handleDocumentClick_def frame_def report_def)

lemma frame_raf_callbacks:
  "tooltip w \<noteq> None \<Longrightarrow> frame w (((\<lambda>x. report (raf_callback x)) ^^ n) w)"
  by (induction n) (auto simp: frame_def report_def raf_callback_def split: option.splits)

lemma frame_frames:
  "tooltip w \<noteq> None \<Longrightarrow>
   frame w (((\<lambda>x. report (raf_callback x)) ^^ raf_queue w) (w\<lparr>raf_queue := 0\<rparr>))"
  using frame_raf_callbacks [of "w\<lparr>raf_queue := 0\<rparr>" "raf_queue w"]
  by (auto simp: frame_def)

lemma frame_run_frame:
  "tooltip w \<noteq> None \<Longrightarrow> \<exists>w'. run_frame w = Inr w' \<and> frame w w'"
  using frame_frames [of w] by (simp add: run_frame_def)

lemma timer_kinds: "is_show t \<or> is_hide t \<or> cb t = ResizeCb"
  by (cases "cb t") (simp_all add: is_show_def is_hide_def)

lemma settled_add_resize:
  assumes "settled b w"
    and "listeners w' = listeners w" and "hotspots w' = hotspots w" and "tooltip w' \<noteq> None"
    and "showTimeout w' = showTimeout w" and "hideTimeout w' = hideTimeout w"
    and "timers w' = timers w @ [t]" and "cb t = ResizeCb"
  shows "settled b w'"
proof -
  have "show_timers w' = show_timers w" "hide_timers w' = hide_timers w"
    by (simp_all add: show_timers_def hide_timers_def assms(7,8) is_show_def is_hide_def)
  moreover have "covered w'"
    using assms(1)
    by (simp add: settled_def covered_def held_cong [OF assms(5,6)] assms(7))
       (simp add: held_def assms(8))
  moreover have "bound w'"
    using assms(1-3) by (simp add: settled_def bound_def)
  ultimately show ?thesis
    using assms(1,4) by (auto simp: settled_def split: if_splits)
qed

lemma settled_handleMouseEnter:
  assumes "settled False w"
  shows "settled True (handleMouseEnter ev h w)"
proof -
  from assms have nos: "\<forall>t\<in>set (timers w). \<not> is_show t"
    and cov: "\<forall>t\<in>set (timers w). held w t"
    and b: "bound w" and t: "tooltip w \<noteq> None"
    by (auto simp: settled_def show_timers_def covered_def list_all_iff filter_empty_conv)
  have hid: "\<forall>t\<in>set (timers w). is_hide t \<longrightarrow> hideTimeout w = Some (tid t)"
    using cov by (auto simp: held_def is_hide_def)
  have res: "\<forall>t\<in>set (timers w). \<not> is_hide t \<longrightarrow> cb t = ResizeCb"
    using nos timer_kinds by (auto simp: is_hide_def)
  show ?thesis
    using b t nos hid res
    by (auto simp: settled_def handleMouseEnter_def clearTimeout_def setTimeout_def Let_def
        bound_def covered_def held_def show_timers_def hide_timers_def list_all_iff
        filter_empty_conv is_show_def is_hide_def
        split: option.splits)
qed

lemma settled_handleMouseLeave:
  assumes "settled True w"
  shows "settled False (handleMouseLeave ev h w)"
proof -
  from assms have noh: "\<forall>t\<in>set (timers w). \<not> is_hide t"
    and cov: "\<forall>t\<in>set (timers w). held w t"
    and b: "bound w" and t: "tooltip w \<noteq> None"
    by (auto simp: settled_def hide_timers_def covered_def list_all_iff filter_empty_conv)
  have sho: "\<forall>t\<in>set (timers w). is_show t \<longrightarrow> showTimeout w = Some (tid t)"
    using cov by (auto simp: held_def is_show_def split: timer_cb.splits)
  have res: "\<forall>t\<in>set (timers w). \<not> is_show t \<longrightarrow> cb t = ResizeCb"
    using noh timer_kinds by (auto simp: is_hide_def)
  show ?thesis
    using b t noh sho res
    by (auto simp: settled_def handleMouseLeave_def clearTimeout_def setTimeout_def Let_def
        bound_def covered_def held_def show_timers_def hide_timers_def list_all_iff
        filter_empty_conv is_show_def is_hide_def
        split: option.splits)
qed

lemma settled_debounced_resize:
  assumes "settled b w"
  shows "settled b (debounced_resize w)"
proof -
  let ?w1 = "clearTimeout (debounce_timeout w) w"
  have "frame w ?w1"
    using assms by (auto simp: frame_def settled_def clearTimeout_def split: option.splits)
  with assms have s1: "settled b ?w1" by (rule settled_frame)
  then have t1: "tooltip ?w1 \<noteq> None" by (auto simp: settled_def)
  show ?thesis
    by (rule settled_add_resize [OF s1, where t = "\<lparr>tid = next_tid ?w1, due = now ?w1 + 250, cb = ResizeCb\<rparr>"])
       (simp_all add: debounced_resize_def setTimeout_def Let_def t1)
qed

lemma settled_now: "settled b w \<Longrightarrow> settled b (w\<lparr>now := n\<rparr>)"
  by (frule settled_same [where w' = "w\<lparr>now := n\<rparr>"]) (auto simp: settled_def)

lemma settled_tooltip: "settled b w \<Longrightarrow> tooltip w \<noteq> None"
  by (auto simp: settled_def)

lemma frame_pop_timer: "tooltip w \<noteq> None \<Longrightarrow> frame w (pop_timer t w)"
  by (simp add: frame_def pop_timer_def)

lemma frame_run_timer:
  assumes "tooltip w \<noteq> None"
  shows "\<exists>w'. run_timer c w = Inr w' \<and> frame w w'"
proof (cases c)
  case (ShowCb h ev)
  then show ?thesis using frame_showTooltip [OF assms] by (simp add: run_timer_def)
next
  case HideCb
  then show ?thesis using frame_hideTooltip [OF assms] by (simp add: run_timer_def)
next
  case ResizeCb
  let ?w1 = "clearTimeout (debounce_timeout w) w"
  have f1: "frame w ?w1"
    using assms by (auto simp: frame_def clearTimeout_def split: option.splits)
  then have "tooltip ?w1 \<noteq> None" by (simp add: frame_def)
  from frame_updateTooltipPosition [OF this, of None] f1 ResizeCb show ?thesis
    by (auto simp: run_timer_def intro: frame_trans)
qed

lemma frame_hotspots: "frame w w' \<Longrightarrow> hotspots w' = hotspots w"
  by (simp add: frame_def)

lemma hotspots_handleMouseEnter [simp]: "hotspots (handleMouseEnter ev h w) = hotspots w"
  by (simp add: handleMouseEnter_def clearTimeout_def setTimeout_def Let_def split: option.splits)

lemma hotspots_handleMouseLeave [simp]: "hotspots (handleMouseLeave ev h w) = hotspots w"
  by (simp add: handleMouseLeave_def clearTimeout_def setTimeout_def Let_def split: option.splits)

lemma hotspots_debounced_resize [simp]: "hotspots (debounced_resize w) = hotspots w"
  by (simp add: debounced_resize_def clearTimeout_def setTimeout_def Let_def split: option.splits)

lemma settled_fire_until:
  assumes "settled b w"
  shows "\<exists>w'. fire_until limit w = Inr w' \<and> settled b w' \<and> hotspots w' = hotspots w"
proof (rule fire_until_rule [where I = "\<lambda>x. settled b x \<and> hotspots x = hotspots w"])
  show "settled b w \<and> hotspots w = hotspots w" using assms by simp
next
  fix x t
  assume s: "settled b x \<and> hotspots x = hotspots w"
  then have "tooltip x \<noteq> None" by (auto simp: settled_def)
  then have f1: "frame x (pop_timer t x)" by (rule frame_pop_timer)
  then have "tooltip (pop_timer t x) \<noteq> None" by (simp add: frame_def)
  from frame_run_timer [OF this, of "cb t"] obtain w' where
    r: "run_timer (cb t) (pop_timer t x) = Inr w'" and f2: "frame (pop_timer t x) w'" by blast
  have f: "frame x w'" using f1 f2 by (rule frame_trans)
  from s f have "settled b w'" by (auto intro: settled_frame)
  moreover have "hotspots w' = hotspots w" using s frame_hotspots [OF f] by simp
  ultimately show "\<exists>w'. run_timer (cb t) (pop_timer t x) = Inr w' \<and> settled b w' \<and> hotspots w' = hotspots w"
    using r by blast
next
  fix x
  assume "settled b x \<and> hotspots x = hotspots w"
  then show "settled b (x\<lparr>now := max (now x) limit\<rparr>) \<and> hotspots (x\<lparr>now := max (now x) limit\<rparr>) = hotspots w"
    by (simp add: settled_now)
qed

lemma settled_handle:
  assumes "settled b w" and "alternating (hotspots w) b (i # rest)"
  shows "\<exists>w' b'. handle i w = w' \<and> settled b' w' \<and> hotspots w' = hotspots w
           \<and> alternating (hotspots w) b' rest"
proof -
  note t = settled_tooltip [OF assms(1)]
  have fr: "\<And>r. frame w r \<Longrightarrow> alternating (hotspots w) b rest \<Longrightarrow>
              \<exists>w' b'. r = w' \<and> settled b' w' \<and> hotspots w' = hotspots w
                \<and> alternating (hotspots w) b' rest"
    using assms(1) by (blast intro: settled_frame frame_hotspots)
  have same: "alternating (hotspots w) b rest \<Longrightarrow>
              \<exists>w' b'. w = w' \<and> settled b' w' \<and> hotspots w' = hotspots w
                \<and> alternating (hotspots w) b' rest"
    using assms(1) by blast
  show ?thesis
  proof (cases i)
    case (PointerEnter h ev)
    show ?thesis
    proof (cases "h \<in> set (hotspots w)")
      case True
      with assms PointerEnter have "settled True (handleMouseEnter ev h w)"
        and "alternating (hotspots w) True rest"
        by (auto intro: settled_handleMouseEnter)
      with True PointerEnter show ?thesis by (auto simp: handle_def)
    next
      case False
      with assms PointerEnter same show ?thesis by (simp add: handle_def)
    qed
  next
    case (PointerLeave h ev)
    show ?thesis
    proof (cases "h \<in> set (hotspots w)")
      case True
      with assms PointerLeave have "settled False (handleMouseLeave ev h w)"
        and "alternating (hotspots w) False rest"
        by (auto intro: settled_handleMouseLeave)
      with True PointerLeave show ?thesis by (auto simp: handle_def)
    next
      case False
      with assms PointerLeave same show ?thesis by (simp add: handle_def)
    qed
  next
    case (PointerMove h ev)
    with assms(2) same fr [OF frame_handleMouseMove [OF t, of ev h]] show ?thesis
      by (simp add: handle_def)
  next
    case (Touch h ev)
    with assms(2) same fr [OF frame_showTooltip [OF t, of h ev]] show ?thesis
      by (simp add: handle_def handleTouchStart_def)
  next
    case (ClickOn el ev)
    with assms(2) fr [OF frame_handleClick [OF t, of ev]]
      fr [OF frame_handleDocumentClick [OF t, of el]] show ?thesis
      by (auto simp: handle_def split: element.splits)
  next
    case ScrollView
    from fr [OF frame_hideTooltip [OF t]] ScrollView assms(2) show ?thesis
      by (simp add: handle_def)
  next
    case ResizeView
    with assms settled_debounced_resize [OF assms(1)] show ?thesis
      by (auto simp: handle_def)
  next
    case AnimationFrame
    with assms(2) fr [OF frame_frames [OF t]] show ?thesis
      by (simp add: handle_def)
  qed
qed

lemma settled_bound: "settled b w \<Longrightarrow> bound w"
  by (auto simp: settled_def)

lemma settled_run:
  assumes "settled b w" and "alternating (hotspots w) b (map snd tr)"
  shows "\<exists>w' b'. run tr w = Inr w' \<and> settled b' w' \<and> hotspots w' = hotspots w"
  using assms
proof (induction tr arbitrary: b w)
  case Nil
  then show ?case by auto
next
  case (Cons x tr)
  obtain d i where x: "x = (d, i)" by (cases x)
  from settled_fire_until [OF Cons.prems(1), of "now w + d"] obtain w1 where
    a: "advance d w = Inr w1" and s1: "settled b w1" and h1: "hotspots w1 = hotspots w"
    by (auto simp: advance_def)
  from Cons.prems(2) x h1 have "alternating (hotspots w1) b (i # map snd tr)" by simp
  from settled_handle [OF s1 this] obtain w2 b2 where
    h: "handle i w1 = w2" and s2: "settled b2 w2" and h2: "hotspots w2 = hotspots w1"
    and alt: "alternating (hotspots w1) b2 (map snd tr)" by blast
  from alt h2 have "alternating (hotspots w2) b2 (map snd tr)" by simp
  from Cons.IH [OF s2 this] obtain w' b' where
    r: "run tr w2 = Inr w'" and s': "settled b' w'" and h': "hotspots w' = hotspots w2" by blast
  have "deliver i w1 = Inr w2" using h deliver_bound [OF settled_bound [OF s1]] by simp
  with a r x have "run (x # tr) w = Inr w'" by simp
  with s' h' h2 h1 show ?case by auto
qed

lemma settled_new:
  assumes "distinct hs" and "listeners w0 = []" and "timers w0 = []"
  shows "settled b (TooltipManager_new (Some t) hs w0)"
  using assms
  by (simp add: TooltipManager_new_eq settled_def bound_def covered_def show_timers_def
      hide_timers_def)

lemma hotspots_new: "hotspots (TooltipManager_new (Some t) hs w0) = hs"
  by (simp add: TooltipManager_new_eq)

lemma visible_hideTooltip: "\<not> visible (hideTooltip w)"
  by (simp add: visible_def hideTooltip_def clearTimeout_def classList_contains_def
      classList_remove_def Let_def split: option.splits)

lemma timers_hideTooltip:
  "tooltip w \<noteq> None \<Longrightarrow>
   timers (hideTooltip w) =
     filter (\<lambda>x. Some (tid x) \<noteq> showTimeout w \<and> Some (tid x) \<noteq> hideTimeout w) (timers w)"
  by (auto simp: hideTooltip_def clearTimeout_def Let_def split: option.splits intro: filter_cong)

lemma handleMouseEnter_eq:
  "handleMouseEnter ev h w =
     w\<lparr>timers := filter (\<lambda>t. Some (tid t) \<noteq> hideTimeout w) (timers w) @
                  [\<lparr>tid = next_tid w, due = now w + showDelay, cb = ShowCb h ev\<rparr>],
       next_tid := Suc (next_tid w), showTimeout := Some (next_tid w)\<rparr>"
  by (cases "hideTimeout w")
     (auto simp: handleMouseEnter_def clearTimeout_def setTimeout_def Let_def intro: filter_cong)

lemma handleMouseLeave_eq:
  "handleMouseLeave ev h w =
     w\<lparr>timers := filter (\<lambda>t. Some (tid t) \<noteq> showTimeout w) (timers w) @
                  [\<lparr>tid = next_tid w, due = now w + hideDelay, cb = HideCb\<rparr>],
       next_tid := Suc (next_tid w), hideTimeout := Some (next_tid w)\<rparr>"
  by (cases "showTimeout w")
     (auto simp: handleMouseLeave_def clearTimeout_def setTimeout_def Let_def intro: filter_cong)

section \<open>At most one timer of each kind\<close>

text \<open>
  C3, as the code has it. \<^verbatim>\<open>handleMouseEnter\<close> cancels the hide timer it holds and starts a
  show timer; \<^verbatim>\<open>handleMouseLeave\<close> cancels the show timer it holds and starts a hide timer:
  each cancels the timer of the other kind and keeps every other timer, also an earlier
  one of its own kind. After
  any sequence of inputs in which pointer-enter and pointer-leave events at the hotspots
  alternate, at most one show timer and at most one hide timer are outstanding, and the
  manager holds the handle of each.
\<close>

theorem alternating_one_timer_each:
  assumes "distinct hs" and "listeners w0 = []" and "timers w0 = []"
    and "alternating hs inside (map snd tr)"
  shows "timers (handleMouseEnter ev h w) =
           filter (\<lambda>x. Some (tid x) \<noteq> hideTimeout w) (timers w) @
           [\<lparr>tid = next_tid w, due = now w + showDelay, cb = ShowCb h ev\<rparr>]
       \<and> timers (handleMouseLeave ev h w) =
           filter (\<lambda>x. Some (tid x) \<noteq> showTimeout w) (timers w) @
           [\<lparr>tid = next_tid w, due = now w + hideDelay, cb = HideCb\<rparr>]
       \<and> (\<exists>w. run tr (TooltipManager_new (Some t) hs w0) = Inr w
           \<and> length (show_timers w) \<le> 1 \<and> length (hide_timers w) \<le> 1 \<and> covered w)"
proof -
  let ?w = "TooltipManager_new (Some t) hs w0"
  have s: "settled inside ?w" using assms(1-3) by (rule settled_new)
  have a: "alternating (hotspots ?w) inside (map snd tr)" using assms(4) by (simp add: hotspots_new)
  from settled_run [OF s a] obtain w' b' where
    "run tr ?w = Inr w'" and "settled b' w'" by blast
  then have "\<exists>w. run tr ?w = Inr w
           \<and> length (show_timers w) \<le> 1 \<and> length (hide_timers w) \<le> 1 \<and> covered w"
    by (auto simp: settled_def split: if_splits)
  then show ?thesis
    by (simp add: handleMouseEnter_eq handleMouseLeave_eq)
qed

theorem alternating_one_timer_each_witness:
  "distinct [1, 2, 3 :: nat] \<and> listeners demo_browser = [] \<and> timers demo_browser = []
   \<and> alternating [1, 2, 3] False (map snd hover_trace)
   \<and> timers (handleMouseEnter (mouse_at 410 310) 2 demo_leaving) =
       filter (\<lambda>x. Some (tid x) \<noteq> hideTimeout demo_leaving) (timers demo_leaving) @
       [\<lparr>tid = next_tid demo_leaving, due = now demo_leaving + showDelay,
          cb = ShowCb 2 (mouse_at 410 310)\<rparr>]
   \<and> (\<exists>w. run hover_trace demo = Inr w
           \<and> length (show_timers w) \<le> 1 \<and> length (hide_timers w) \<le> 1 \<and> covered w)"
  using alternating_one_timer_each [of "[1, 2, 3]" demo_browser False hover_trace
      "mouse_at 410 310" 2 demo_leaving demo_tooltip]
  by (simp add: demo_def demo_browser_def hover_trace_def)

text \<open>
  Without the alternation the claim fails: two pointer-enter events in a row (the second
  hotspot lies inside the first, or a pointer-leave event was lost) leave two show timers
  outstanding, the first of which the manager can no longer cancel.
\<close>

theorem double_enter_two_show_timers:
  "\<not> isl (run double_enter demo)
   \<and> map cb (show_timers (projr (run double_enter demo))) =
       [ShowCb 1 (mouse_at 210 310), ShowCb 2 (mouse_at 410 310)]
   \<and> length (show_timers (projr (run double_enter demo))) = 2"
  by (simp add: double_enter_def demo_defs loop_defs method_defs show_timers_def is_show_def)

section \<open>Scrolling\<close>

text \<open>
  C7, as the code has it. On a page the manager is bound to, a scroll of the window runs
  \<^verbatim>\<open>hideTooltip\<close> at once: afterwards the tooltip is not visible, no hotspot is associated,
  the hotspot that was associated has lost its active flag, and the timers whose
  identifiers the fields \<^verbatim>\<open>showTimeout\<close> and \<^verbatim>\<open>hideTimeout\<close> hold are cancelled. These are
  all the outstanding show and hide timers when every one of them is held (\<open>covered\<close>), as
  in every state reached with alternating pointer-enter and pointer-leave events
  (lemma \<open>settled_run\<close>).
\<close>

theorem scroll_hides:
  assumes "bound w" and "tooltip w = Some t"
  shows "deliver ScrollView w = Inr (hideTooltip w)
       \<and> \<not> visible (hideTooltip w)
       \<and> activeHotspot (hideTooltip w) = None
       \<and> (case activeHotspot w of None \<Rightarrow> True | Some a \<Rightarrow> a \<notin> hs_active (hideTooltip w))
       \<and> timers (hideTooltip w) =
           filter (\<lambda>x. Some (tid x) \<noteq> showTimeout w \<and> Some (tid x) \<noteq> hideTimeout w) (timers w)
       \<and> (covered w \<longrightarrow> show_timers (hideTooltip w) = [] \<and> hide_timers (hideTooltip w) = [])"
proof -
  have tm: "timers (hideTooltip w) =
           filter (\<lambda>x. Some (tid x) \<noteq> showTimeout w \<and> Some (tid x) \<noteq> hideTimeout w) (timers w)"
    using assms(2) by (simp add: timers_hideTooltip)
  have "deliver ScrollView w = Inr (hideTooltip w)"
    using assms(1) by (simp add: deliver_bound handle_def)
  moreover have "activeHotspot (hideTooltip w) = None"
    using assms(2) by (simp add: hideTooltip_def clearTimeout_def Let_def split: option.splits)
  moreover have "case activeHotspot w of None \<Rightarrow> True | Some a \<Rightarrow> a \<notin> hs_active (hideTooltip w)"
    using assms(2) by (simp add: hideTooltip_def clearTimeout_def Let_def split: option.splits)
  moreover have "covered w \<longrightarrow> show_timers (hideTooltip w) = [] \<and> hide_timers (hideTooltip w) = []"
    unfolding show_timers_def hide_timers_def tm
    by (auto simp: covered_def held_def list_all_iff filter_empty_conv is_show_def is_hide_def
        split: timer_cb.splits)
  ultimately show ?thesis using tm visible_hideTooltip by blast
qed

theorem scroll_hides_witness:
  "bound demo_leaving \<and> tooltip demo_leaving \<noteq> None \<and> covered demo_leaving
   \<and> visible demo_leaving \<and> activeHotspot demo_leaving = Some 1 \<and> 1 \<in> hs_active demo_leaving
   \<and> map cb (timers demo_leaving) = [HideCb]
   \<and> deliver ScrollView demo_leaving = Inr (hideTooltip demo_leaving)
   \<and> \<not> visible (hideTooltip demo_leaving)
   \<and> activeHotspot (hideTooltip demo_leaving) = None
   \<and> 1 \<notin> hs_active (hideTooltip demo_leaving)
   \<and> show_timers (hideTooltip demo_leaving) = [] \<and> hide_timers (hideTooltip demo_leaving) = []"
  using scroll_hides [of demo_leaving "the (tooltip demo_leaving)"]
  by (simp add: demo_leaving_def demo_defs loop_defs method_defs bound_def bound_listeners_def
      hotspot_listeners_def covered_def held_def visible_def)

text \<open>
  A show timer whose handle was overwritten by a second pointer-enter survives the scroll
  and shows the tooltip 300 ms after the first pointer-enter.
\<close>

theorem scroll_leaves_orphan_timer:
  "\<not> isl (run scroll_trace demo)
   \<and> \<not> visible (projr (run scroll_trace demo))
   \<and> map cb (show_timers (projr (run scroll_trace demo))) = [ShowCb 1 (mouse_at 210 310)]
   \<and> \<not> isl (advance 1000 (projr (run scroll_trace demo)))
   \<and> visible (projr (advance 1000 (projr (run scroll_trace demo))))
   \<and> activeHotspot (projr (advance 1000 (projr (run scroll_trace demo)))) = Some 1"
  by (simp add: scroll_trace_def double_enter_def demo_defs loop_defs method_defs show_timers_def
      is_show_def visible_def)

section \<open>The active flag\<close>

text \<open>
  C1. \<^verbatim>\<open>showTooltip\<close> makes the new hotspot the associated one and sets its active flag;
  it does not clear the flag of the hotspot that was associated before, which only
  \<^verbatim>\<open>hideTooltip\<close> does, and only for the hotspot associated at that time. On the page
  \<open>demo\<close>, a click on hotspot 1 and then a click on hotspot 2 leave the tooltip visible
  for hotspot 2 and both hotspots flagged; after a scroll that hides the tooltip, hotspot
  1 is still flagged.
\<close>

theorem second_click_keeps_first_active:
  "\<not> isl (run two_clicks demo)
   \<and> visible (projr (run two_clicks demo))
   \<and> activeHotspot (projr (run two_clicks demo)) = Some 2
   \<and> hs_active (projr (run two_clicks demo)) = {1, 2}
   \<and> \<not> isl (run (two_clicks @ [(100, ScrollView)]) demo)
   \<and> \<not> visible (projr (run (two_clicks @ [(100, ScrollView)]) demo))
   \<and> activeHotspot (projr (run (two_clicks @ [(100, ScrollView)]) demo)) = None
   \<and> hs_active (projr (run (two_clicks @ [(100, ScrollView)]) demo)) = {1}"
  by (auto simp: two_clicks_def demo_defs loop_defs method_defs visible_def)

section \<open>Teardown\<close>

lemma listeners_hideTooltip [simp]: "listeners (hideTooltip w) = listeners w"
  by (simp add: hideTooltip_def clearTimeout_def Let_def split: option.splits)

lemma hotspots_hideTooltip [simp]: "hotspots (hideTooltip w) = hotspots w"
  by (simp add: hideTooltip_def clearTimeout_def Let_def split: option.splits)

lemma filter_method_listeners:
  "filter (\<lambda>l. l \<noteq> (tg, ty, Method m)) (bound_listeners hs) = bound_listeners hs"
  by (induction hs) (auto simp: bound_listeners_def hotspot_listeners_def)

lemma removeEventListener_method:
  "listeners w = bound_listeners hs \<Longrightarrow> removeEventListener tg ty (Method m) w = w"
  by (simp add: removeEventListener_def filter_method_listeners)

lemma unbind_hotspot_bound:
  "listeners w = bound_listeners hs \<Longrightarrow> unbind_hotspot h w = w"
  by (simp add: unbind_hotspot_def Let_def removeEventListener_method)

lemma fold_unbind_hotspot_bound:
  "listeners w = bound_listeners hs \<Longrightarrow> fold unbind_hotspot xs w = w"
  by (induction xs) (simp_all add: unbind_hotspot_bound)

lemma destroy_bound: "bound w \<Longrightarrow> destroy w = hideTooltip w"
proof -
  assume "bound w"
  then have l: "listeners (hideTooltip w) = bound_listeners (hotspots w)"
    by (simp add: bound_def)
  show ?thesis
    by (simp add: destroy_def Let_def fold_unbind_hotspot_bound [OF l]
        removeEventListener_method [OF l])
qed

text \<open>
  C2. \<^verbatim>\<open>destroy\<close> hides the tooltip, which cancels the two timers the manager holds, and
  then calls \<^verbatim>\<open>removeEventListener\<close> with the methods of the instance. The listeners that
  \<^verbatim>\<open>bindEvents\<close> registered are arrow functions, other objects than these methods, so no
  listener is removed (\<open>destroy_bound\<close>): on the page \<open>demo\<close> all 18 listeners are still
  there after \<open>destroy\<close>, a click on hotspot 1 shows the tooltip again, and a pointer-enter
  on hotspot 2 starts a timer whose callback shows the tooltip 300 ms later.
\<close>

theorem destroy_leaves_listeners:
  "bound demo_shown \<and> visible demo_shown
   \<and> destroy demo_shown = hideTooltip demo_shown
   \<and> listeners (destroy demo_shown) = listeners demo_shown
   \<and> length (listeners (destroy demo_shown)) = 18
   \<and> \<not> visible (destroy demo_shown)
   \<and> \<not> isl (deliver (ClickOn (EHotspot 1) (mouse_at 220 320)) (destroy demo_shown))
   \<and> visible (projr (deliver (ClickOn (EHotspot 1) (mouse_at 220 320)) (destroy demo_shown)))
   \<and> \<not> isl (run_then_wait [(0, PointerEnter 2 (mouse_at 410 310))] 300 (destroy demo_shown))
   \<and> visible (projr (run_then_wait [(0, PointerEnter 2 (mouse_at 410 310))] 300 (destroy demo_shown)))
   \<and> activeHotspot (projr (run_then_wait [(0, PointerEnter 2 (mouse_at 410 310))] 300
        (destroy demo_shown))) = Some 2"
proof -
  have b: "bound demo_shown"
    by (simp add: demo_shown_eq demo_defs bound_def bound_listeners_def hotspot_listeners_def)
  have d: "destroy demo_shown = hideTooltip demo_shown"
    using b by (rule destroy_bound)
  show ?thesis
    unfolding d using b
    by (simp add: run_then_wait_def demo_shown_eq demo_defs loop_defs method_defs visible_def)
qed

section \<open>What the handlers and the waiting do\<close>


lemma visible_positionTooltip:
  "tooltip w = Some t \<Longrightarrow>
   \<exists>t'. positionTooltip h ev w = w\<lparr>tooltip := Some t'\<rparr>
      \<and> classList_contains ''visible'' (className t')
      \<and> title_el t' = title_el t \<and> description_el t' = description_el t
      \<and> tech_el t' = tech_el t \<and> live_link t' = live_link t \<and> github_link t' = github_link t"
  by (auto simp: positionTooltip_def Let_def classList_contains_def split: prod.splits)


lemma updateTooltipPosition_None:
  "tooltip w \<noteq> None \<Longrightarrow> updateTooltipPosition None w = Inr w"
  by (auto simp: updateTooltipPosition_def split: option.splits)

lemma fire_resize_only:
  assumes "tooltip w \<noteq> None"
    and "\<forall>t\<in>set (timers w). due t \<le> limit \<longrightarrow> cb t = ResizeCb"
    and "now w \<le> limit"
  shows "\<exists>P. fire_until limit w = Inr (w\<lparr>timers := filter P (timers w), now := limit\<rparr>)
           \<and> (\<forall>t\<in>set (timers w). stays w limit t \<longrightarrow> P t)"
proof -
  let ?I = "\<lambda>x. \<exists>P n. x = w\<lparr>timers := filter P (timers w), now := n\<rparr> \<and> n \<le> limit
                \<and> (\<forall>t\<in>set (timers w). stays w limit t \<longrightarrow> P t)"
  let ?Q = "\<lambda>x. \<exists>P. x = w\<lparr>timers := filter P (timers w), now := limit\<rparr>
                \<and> (\<forall>t\<in>set (timers w). stays w limit t \<longrightarrow> P t)"
  have "\<exists>w'. fire_until limit w = Inr w' \<and> ?Q w'"
  proof (rule fire_until_rule [where I = ?I])
    show "?I w"
      using assms(3) by (intro exI [of _ "\<lambda>t. True"] exI [of _ "now w"]) simp
  next
    fix x t
    assume i: "?I x" and nt: "next_timer limit x = Some t"
    from i obtain P n where x: "x = w\<lparr>timers := filter P (timers w), now := n\<rparr>"
      and n: "n \<le> limit" and st: "\<forall>t\<in>set (timers w). stays w limit t \<longrightarrow> P t" by blast
    from next_timer_mem [OF nt] next_timer_due [OF nt] x
    have tm: "t \<in> set (timers w)" and td: "due t \<le> limit" by auto
    with assms(2) have c: "cb t = ResizeCb" by blast
    let ?P = "\<lambda>u. (P u \<and> tid u \<noteq> tid t) \<and> Some (tid u) \<noteq> debounce_timeout w"
    let ?x' = "w\<lparr>timers := filter ?P (timers w), now := max n (due t)\<rparr>"
    have cl: "clearTimeout (debounce_timeout (pop_timer t x)) (pop_timer t x) = ?x'"
      by (cases "debounce_timeout w") (simp_all add: x clearTimeout_def pop_timer_def)
    have "tooltip ?x' \<noteq> None" using assms(1) by simp
    then have r: "run_timer (cb t) (pop_timer t x) = Inr ?x'"
      by (simp add: c run_timer_def cl updateTooltipPosition_None report_def)
    have "\<forall>u\<in>set (timers w). stays w limit u \<longrightarrow> ?P u"
      using st tm td by (auto simp: stays_def list_all_iff)
    with n td have "?I ?x'"
      by (intro exI [of _ ?P] exI [of _ "max n (due t)"]) simp
    with r show "\<exists>w'. run_timer (cb t) (pop_timer t x) = Inr w' \<and> ?I w'" by blast
  next
    fix x
    assume i: "?I x" and "next_timer limit x = None"
    from i obtain P n where x: "x = w\<lparr>timers := filter P (timers w), now := n\<rparr>"
      and n: "n \<le> limit" and st: "\<forall>t\<in>set (timers w). stays w limit t \<longrightarrow> P t" by blast
    have "x\<lparr>now := max (now x) limit\<rparr> = w\<lparr>timers := filter P (timers w), now := limit\<rparr>"
      using n by (simp add: x max_def)
    with st show "?Q (x\<lparr>now := max (now x) limit\<rparr>)" by blast
  qed
  then show ?thesis by blast
qed

section \<open>Hovering\<close>

lemma advance_resize_only:
  assumes "tooltip w \<noteq> None"
    and "\<forall>t\<in>set (timers w). due t \<le> now w + d \<longrightarrow> cb t = ResizeCb"
  shows "\<exists>P. advance d w = Inr (w\<lparr>timers := filter P (timers w), now := now w + d\<rparr>)
           \<and> (\<forall>t\<in>set (timers w). stays w (now w + d) t \<longrightarrow> P t)"
  unfolding advance_def using assms by (intro fire_resize_only) simp_all

lemma bound_cong: "listeners w' = listeners w \<Longrightarrow> hotspots w' = hotspots w \<Longrightarrow> bound w \<Longrightarrow> bound w'"
  by (simp add: bound_def)

lemma quiet_resize: "quiet w \<Longrightarrow> t \<in> set (timers w) \<Longrightarrow> cb t = ResizeCb \<and> tid t < next_tid w"
  by (auto simp: quiet_def list_all_iff)

lemma quiet_debounce: "quiet w \<Longrightarrow> debounce_timeout w \<noteq> Some (next_tid w + k)"
  by (auto simp: quiet_def split: option.splits)

lemma deliver_enter:
  "bound w \<Longrightarrow> h \<in> set (hotspots w) \<Longrightarrow>
   deliver (PointerEnter h ev) w = Inr (handleMouseEnter ev h w)"
  by (simp add: deliver_bound handle_def)

lemma deliver_leave:
  "bound w \<Longrightarrow> h \<in> set (hotspots w) \<Longrightarrow>
   deliver (PointerLeave h ev) w = Inr (handleMouseLeave ev h w)"
  by (simp add: deliver_bound handle_def)

lemma run_timer_resize:
  "tooltip w \<noteq> None \<Longrightarrow>
   run_timer ResizeCb w = Inr (clearTimeout (debounce_timeout w) w)"
  by (simp add: run_timer_def updateTooltipPosition_None report_def clearTimeout_def
        split: option.splits)

lemma step_leave:
  assumes "bound w" and "h \<in> set (hotspots w)" and "tooltip w \<noteq> None"
    and "\<forall>x\<in>set (timers w). due x \<le> now w + d \<longrightarrow> cb x = ResizeCb"
  shows "\<exists>P. run ((d, PointerLeave h ev) # rest) w =
               run rest (handleMouseLeave ev h (w\<lparr>timers := filter P (timers w), now := now w + d\<rparr>))
           \<and> (\<forall>x\<in>set (timers w). stays w (now w + d) x \<longrightarrow> P x)"
proof -
  from advance_resize_only [OF assms(3,4)] obtain P where
    a: "advance d w = Inr (w\<lparr>timers := filter P (timers w), now := now w + d\<rparr>)"
    and s: "\<forall>x\<in>set (timers w). stays w (now w + d) x \<longrightarrow> P x" by blast
  define w0 where "w0 = w\<lparr>timers := filter P (timers w), now := now w + d\<rparr>"
  have "bound w0" "h \<in> set (hotspots w0)" using assms(1,2) by (simp_all add: w0_def bound_def)
  then have "deliver (PointerLeave h ev) w0 = Inr (handleMouseLeave ev h w0)"
    by (rule deliver_leave)
  with a have "run ((d, PointerLeave h ev) # rest) w = run rest (handleMouseLeave ev h w0)"
    by (simp add: w0_def)
  with s show ?thesis unfolding w0_def by blast
qed

lemma step_enter:
  assumes "bound w" and "h \<in> set (hotspots w)" and "tooltip w \<noteq> None"
    and "\<forall>x\<in>set (timers w). due x \<le> now w + d \<longrightarrow> cb x = ResizeCb"
  shows "\<exists>P. run ((d, PointerEnter h ev) # rest) w =
               run rest (handleMouseEnter ev h (w\<lparr>timers := filter P (timers w), now := now w + d\<rparr>))
           \<and> (\<forall>x\<in>set (timers w). stays w (now w + d) x \<longrightarrow> P x)"
proof -
  from advance_resize_only [OF assms(3,4)] obtain P where
    a: "advance d w = Inr (w\<lparr>timers := filter P (timers w), now := now w + d\<rparr>)"
    and s: "\<forall>x\<in>set (timers w). stays w (now w + d) x \<longrightarrow> P x" by blast
  define w0 where "w0 = w\<lparr>timers := filter P (timers w), now := now w + d\<rparr>"
  have "bound w0" "h \<in> set (hotspots w0)" using assms(1,2) by (simp_all add: w0_def bound_def)
  then have "deliver (PointerEnter h ev) w0 = Inr (handleMouseEnter ev h w0)"
    by (rule deliver_enter)
  with a have "run ((d, PointerEnter h ev) # rest) w = run rest (handleMouseEnter ev h w0)"
    by (simp add: w0_def)
  with s show ?thesis unfolding w0_def by blast
qed

lemma populateTooltip_className:
  assumes "tooltip w = Some t"
  shows "\<exists>t1. className t1 = className t
           \<and> (populateTooltip v w = Inl (TypeError, w\<lparr>tooltip := Some t1\<rparr>)
              \<or> populateTooltip v w = Inr (w\<lparr>tooltip := Some t1\<rparr>))"
proof -
  let ?t1 = "t\<lparr>title_el := map_option (\<lambda>_. text_of (info_title v)) (title_el t),
                 description_el :=
                   map_option (\<lambda>_. text_of (info_description v)) (description_el t)\<rparr>"
  let ?t2 = "?t1\<lparr>live_link := map_option (set_link (info_liveUrl v)) (live_link t),
                   github_link := map_option (set_link (info_githubUrl v)) (github_link t)\<rparr>"
  show ?thesis
  proof (cases "tech_el t")
    case None
    with assms have "populateTooltip v w = Inr (w\<lparr>tooltip := Some ?t2\<rparr>)"
      by (simp add: populateTooltip_def)
    then show ?thesis by (intro exI [of _ ?t2]) simp
  next
    case (Some old)
    show ?thesis
    proof (cases "info_tech v")
      case None
      with Some assms have "populateTooltip v w = Inl (TypeError, w\<lparr>tooltip := Some ?t1\<rparr>)"
        by (simp add: populateTooltip_def)
      then show ?thesis by (intro exI [of _ ?t1]) simp
    next
      case (Some ts)
      let ?t3 = "?t2\<lparr>tech_el := Some (concat (map tech_tag ts))\<rparr>"
      from Some \<open>tech_el t = Some old\<close> assms
      have "populateTooltip v w = Inr (w\<lparr>tooltip := Some ?t3\<rparr>)"
        by (simp add: populateTooltip_def)
      then show ?thesis by (intro exI [of _ ?t3]) simp
    qed
  qed
qed

lemma showTooltip_keeps:
  assumes "tooltip w \<noteq> None" and "visible w" and "activeHotspot w = Some h"
  shows "tooltip (report (showTooltip h ev w)) \<noteq> None
       \<and> visible (report (showTooltip h ev w))
       \<and> activeHotspot (report (showTooltip h ev w)) = Some h
       \<and> timers (report (showTooltip h ev w)) = timers w"
proof (cases "projectData_get w (property_key (hs_project w h))")
  case None
  with assms show ?thesis by (simp add: showTooltip_def report_def visible_def)
next
  case (Some v)
  from assms(1) obtain t where t: "tooltip w = Some t" by blast
  let ?w1 = "w\<lparr>activeHotspot := Some h\<rparr>"
  have "tooltip ?w1 = Some t" using t by simp
  from populateTooltip_className [OF this, of v] obtain t1 where
    c: "className t1 = className t"
    and p: "populateTooltip v ?w1 = Inl (TypeError, ?w1\<lparr>tooltip := Some t1\<rparr>)
          \<or> populateTooltip v ?w1 = Inr (?w1\<lparr>tooltip := Some t1\<rparr>)"
    by blast
  from p show ?thesis
  proof
    assume "populateTooltip v ?w1 = Inl (TypeError, ?w1\<lparr>tooltip := Some t1\<rparr>)"
    with Some assms(2) t c show ?thesis
      by (simp add: showTooltip_def report_def visible_def)
  next
    assume q: "populateTooltip v ?w1 = Inr (?w1\<lparr>tooltip := Some t1\<rparr>)"
    let ?w2 = "?w1\<lparr>tooltip := Some t1\<rparr>"
    have "tooltip ?w2 = Some t1" by simp
    from visible_positionTooltip [OF this, of h ev] obtain t' where
      pos: "positionTooltip h ev ?w2 = ?w2\<lparr>tooltip := Some t'\<rparr>"
      and v: "classList_contains ''visible'' (className t')"
      by blast
    from Some q pos v show ?thesis
      by (simp add: showTooltip_def report_def visible_def requestAnimationFrame_def Let_def)
  qed
qed

lemma wait_keeps_showing:
  assumes "tooltip w \<noteq> None" and "visible w" and "activeHotspot w = Some h"
    and "\<forall>x\<in>set (timers w). cb x = ResizeCb \<or> (\<exists>ev. cb x = ShowCb h ev)"
  shows "\<exists>w'. advance e w = Inr w' \<and> tooltip w' \<noteq> None \<and> visible w'
           \<and> activeHotspot w' = Some h \<and> hide_timers w' = []"
proof -
  let ?I = "\<lambda>x. tooltip x \<noteq> None \<and> visible x \<and> activeHotspot x = Some h
               \<and> (\<forall>u\<in>set (timers x). cb u = ResizeCb \<or> (\<exists>ev. cb u = ShowCb h ev))"
  let ?Q = "\<lambda>x. tooltip x \<noteq> None \<and> visible x \<and> activeHotspot x = Some h \<and> hide_timers x = []"
  have "\<exists>w'. fire_until (now w + e) w = Inr w' \<and> ?Q w'"
  proof (rule fire_until_rule [where I = ?I])
    show "?I w" using assms by simp
  next
    fix x u
    assume i: "?I x" and nt: "next_timer (now w + e) x = Some u"
    let ?x = "pop_timer u x"
    have p: "tooltip ?x \<noteq> None" "visible ?x" "activeHotspot ?x = Some h"
      "\<forall>u\<in>set (timers ?x). cb u = ResizeCb \<or> (\<exists>ev. cb u = ShowCb h ev)"
      using i by (simp_all add: pop_timer_def visible_def)
    from i next_timer_mem [OF nt] consider "cb u = ResizeCb" | ev where "cb u = ShowCb h ev"
      by blast
    then show "\<exists>w'. run_timer (cb u) ?x = Inr w' \<and> ?I w'"
    proof cases
      case 1
      with p show ?thesis
        by (simp add: run_timer_resize clearTimeout_def visible_def split: option.splits)
    next
      case 2
      from showTooltip_keeps [OF p(1-3), of ev] p(4) 2 show ?thesis
        by (auto simp: run_timer_def)
    qed
  next
    fix x
    assume "?I x"
    then show "?Q (x\<lparr>now := max (now x) (now w + e)\<rparr>)"
      by (auto simp: visible_def hide_timers_def filter_empty_conv is_hide_def)
  qed
  then show ?thesis by (simp add: advance_def)
qed


text \<open>
  C10. The tooltip is visible for hotspot \<open>a\<close> and no show or hide timer is outstanding.
  The pointer leaves \<open>a\<close> and enters a hotspot \<open>b\<close> less than 150 ms later: the
  pointer-enter cancels the hide timer, and for every time \<open>e\<close> less than 300 ms after it
  the tooltip is visible, its element is unchanged (so it shows the content of \<open>a\<close>), \<open>a\<close>
  is the associated hotspot, no hide timer is outstanding and the show timer of \<open>b\<close> is.
\<close>

theorem hover_other_hotspot_keeps_tooltip:
  assumes b: "bound w" and ha: "a \<in> set (hotspots w)" and hb: "b \<in> set (hotspots w)"
    and t: "tooltip w = Some t" and v: "visible w" and act: "activeHotspot w = Some a"
    and q: "quiet w" and d: "d < hideDelay" and e: "e < showDelay"
  shows "\<exists>w'. run_then_wait [(0, PointerLeave a ev), (d, PointerEnter b ev')] e w = Inr w'
           \<and> tooltip w' = Some t \<and> visible w' \<and> activeHotspot w' = Some a
           \<and> hide_timers w' = [] \<and> map cb (show_timers w') = [ShowCb b ev']"
proof -
  let ?n = "next_tid w"
  have rs: "\<forall>x\<in>set (timers w). cb x = ResizeCb \<and> tid x < ?n"
    using q by (auto dest: quiet_resize)
  \<comment> \<open>nothing but resize timers before the pointer leaves\<close>
  from advance_resize_only [of w 0] t rs obtain P0 where
    a0: "advance 0 w = Inr (w\<lparr>timers := filter P0 (timers w), now := now w + 0\<rparr>)" by auto
  define w0 where "w0 = w\<lparr>timers := filter P0 (timers w), now := now w + 0\<rparr>"
  have a0': "advance 0 w = Inr w0" unfolding w0_def by (rule a0)
  have b0: "bound w0" "a \<in> set (hotspots w0)"
    using b ha by (simp_all add: w0_def bound_def)
  define w1 where "w1 = handleMouseLeave ev a w0"
  have d1: "deliver (PointerLeave a ev) w0 = Inr w1"
    unfolding w1_def using b0 by (rule deliver_leave)
  have f1: "tooltip w1 = Some t" "activeHotspot w1 = Some a" "bound w1" "b \<in> set (hotspots w1)"
    "now w1 = now w" "hideTimeout w1 = Some ?n" "next_tid w1 = Suc ?n"
    "debounce_timeout w1 = debounce_timeout w"
    using t act b hb by (simp_all add: w1_def handleMouseLeave_eq w0_def bound_def)
  have ts1: "\<forall>x\<in>set (timers w1). (cb x = ResizeCb \<and> tid x < ?n)
               \<or> (tid x = ?n \<and> due x = now w + hideDelay)"
    using rs by (auto simp: w1_def handleMouseLeave_eq w0_def)
  \<comment> \<open>the hide timer is not due before the pointer enters the other hotspot\<close>
  have "\<forall>x\<in>set (timers w1). due x \<le> now w1 + d \<longrightarrow> cb x = ResizeCb"
    using ts1 d f1(5) by auto
  from advance_resize_only [OF _ this] f1(1) obtain P2 where
    a2: "advance d w1 = Inr (w1\<lparr>timers := filter P2 (timers w1), now := now w1 + d\<rparr>)" by auto
  define w2 where "w2 = w1\<lparr>timers := filter P2 (timers w1), now := now w1 + d\<rparr>"
  have a2': "advance d w1 = Inr w2" unfolding w2_def by (rule a2)
  have b2: "bound w2" "b \<in> set (hotspots w2)"
    using f1 by (simp_all add: w2_def bound_def)
  define w3 where "w3 = handleMouseEnter ev' b w2"
  have d3: "deliver (PointerEnter b ev') w2 = Inr w3"
    unfolding w3_def using b2 by (rule deliver_enter)
  have r: "run [(0, PointerLeave a ev), (d, PointerEnter b ev')] w = Inr w3"
    by (simp add: a0' d1 a2' d3)
  have f3: "tooltip w3 = Some t" "activeHotspot w3 = Some a" "now w3 = now w + d"
    "debounce_timeout w3 = debounce_timeout w"
    using f1 by (simp_all add: w3_def handleMouseEnter_eq w2_def)
  let ?sh = "\<lparr>tid = Suc ?n, due = now w + d + showDelay, cb = ShowCb b ev'\<rparr>"
  have ts3: "\<exists>xs. timers w3 = xs @ [?sh] \<and> (\<forall>x\<in>set xs. cb x = ResizeCb \<and> tid x < ?n)"
    using ts1 f1 by (intro exI [of _ "filter (\<lambda>t. Some (tid t) \<noteq> hideTimeout w2) (timers w2)"])
      (auto simp: w3_def handleMouseEnter_eq w2_def)
  then obtain xs where xs: "timers w3 = xs @ [?sh]"
    and rx: "\<forall>x\<in>set xs. cb x = ResizeCb \<and> tid x < ?n" by blast
  \<comment> \<open>the hide timer is gone, and the new show timer is not due for 300 ms\<close>
  have "\<forall>x\<in>set (timers w3). due x \<le> now w3 + e \<longrightarrow> cb x = ResizeCb"
    using xs rx e f3(3) by auto
  from advance_resize_only [OF _ this] f3(1) obtain P4 where
    a4: "advance e w3 = Inr (w3\<lparr>timers := filter P4 (timers w3), now := now w3 + e\<rparr>)"
    and st: "\<forall>x\<in>set (timers w3). stays w3 (now w3 + e) x \<longrightarrow> P4 x" by auto
  define w4 where "w4 = w3\<lparr>timers := filter P4 (timers w3), now := now w3 + e\<rparr>"
  have "stays w3 (now w3 + e) ?sh"
    using xs rx e f3 quiet_debounce [OF q, of 1] by (auto simp: stays_def list_all_iff)
  with st xs have p4: "P4 ?sh" by simp
  have nh: "hide_timers w4 = []"
    using rx by (auto simp: w4_def xs hide_timers_def filter_empty_conv is_hide_def)
  have "filter is_show (filter P4 xs) = []"
    using rx by (auto simp: filter_empty_conv is_show_def)
  then have sh: "map cb (show_timers w4) = [ShowCb b ev']"
    using p4 by (simp add: w4_def xs show_timers_def is_show_def)
  have a4': "advance e w3 = Inr w4" unfolding w4_def by (rule a4)
  have rw: "run_then_wait [(0, PointerLeave a ev), (d, PointerEnter b ev')] e w = Inr w4"
    unfolding run_then_wait_def r by (simp add: a4')
  have f4: "tooltip w4 = Some t" "activeHotspot w4 = Some a" "visible w4"
    using f3 v t by (simp_all add: w4_def visible_def)
  show ?thesis
    by (rule exI [of _ w4]) (simp only: rw f4 nh sh simp_thms)
qed

theorem hover_other_hotspot_keeps_tooltip_witness:
  "bound demo_shown \<and> 1 \<in> set (hotspots demo_shown) \<and> 2 \<in> set (hotspots demo_shown)
   \<and> tooltip demo_shown \<noteq> None \<and> visible demo_shown \<and> activeHotspot demo_shown = Some 1
   \<and> quiet demo_shown \<and> 100 < hideDelay \<and> 299 < showDelay
   \<and> (\<exists>w'. run_then_wait [(0, PointerLeave 1 (mouse_at 190 310)),
                            (100, PointerEnter 2 (mouse_at 410 310))] 299 demo_shown = Inr w'
           \<and> tooltip w' = tooltip demo_shown \<and> visible w' \<and> activeHotspot w' = Some 1
           \<and> hide_timers w' = [] \<and> map cb (show_timers w') = [ShowCb 2 (mouse_at 410 310)])"
  using hover_other_hotspot_keeps_tooltip [of demo_shown 1 2 "the (tooltip demo_shown)" 100 299
      "mouse_at 190 310" "mouse_at 410 310"]
  by (simp add: demo_shown_eq demo_defs bound_def bound_listeners_def hotspot_listeners_def
      visible_def classList_contains_def quiet_def hideDelay_def showDelay_def)

text \<open>
  C6. The tooltip is visible for hotspot \<open>h\<close> and no show or hide timer is outstanding.
  The pointer leaves \<open>h\<close> and enters it again less than 150 ms later. Up to the re-entry
  the tooltip stays visible for \<open>h\<close>; the re-entry cancels the hide timer, and at every
  time \<open>e\<close> after it (with no further input) the tooltip is visible, \<open>h\<close> is the associated
  hotspot and no hide timer is outstanding.
\<close>

theorem leave_and_reenter_keeps_tooltip:
  assumes b: "bound w" and hh: "h \<in> set (hotspots w)"
    and t: "tooltip w = Some t" and v: "visible w" and act: "activeHotspot w = Some h"
    and q: "quiet w" and d: "d < hideDelay"
  shows "(\<exists>w'. run_then_wait [(0, PointerLeave h ev)] d w = Inr w'
           \<and> visible w' \<and> activeHotspot w' = Some h)
       \<and> (\<exists>w'. run_then_wait [(0, PointerLeave h ev), (d, PointerEnter h ev')] e w = Inr w'
           \<and> visible w' \<and> activeHotspot w' = Some h \<and> hide_timers w' = [])"
proof -
  let ?n = "next_tid w"
  have rs: "\<forall>x\<in>set (timers w). cb x = ResizeCb \<and> tid x < ?n"
    using q by (auto dest: quiet_resize)
  then have z: "\<forall>x\<in>set (timers w). due x \<le> now w + 0 \<longrightarrow> cb x = ResizeCb" by simp
  from step_leave [OF b hh _ z, of ev "[(d, PointerEnter h ev')]"] t obtain P0 where
    r0: "run [(0, PointerLeave h ev), (d, PointerEnter h ev')] w =
         run [(d, PointerEnter h ev')]
           (handleMouseLeave ev h (w\<lparr>timers := filter P0 (timers w), now := now w + 0\<rparr>))"
    by auto
  define w1 where "w1 = handleMouseLeave ev h (w\<lparr>timers := filter P0 (timers w), now := now w + 0\<rparr>)"
  have f1: "tooltip w1 = Some t" "activeHotspot w1 = Some h" "bound w1" "h \<in> set (hotspots w1)"
    "now w1 = now w" "hideTimeout w1 = Some ?n"
    using t act b hh by (simp_all add: w1_def handleMouseLeave_eq bound_def)
  have ts1: "\<forall>x\<in>set (timers w1). (cb x = ResizeCb \<and> tid x < ?n)
               \<or> (tid x = ?n \<and> due x = now w + hideDelay)"
    using rs by (auto simp: w1_def handleMouseLeave_eq)
  have "\<forall>x\<in>set (timers w1). due x \<le> now w1 + d \<longrightarrow> cb x = ResizeCb"
    using ts1 d f1(5) by auto
  from step_enter [OF f1(3,4) _ this, of ev' "[]"] f1(1) obtain P2 where
    r2: "run [(d, PointerEnter h ev')] w1 =
         Inr (handleMouseEnter ev' h (w1\<lparr>timers := filter P2 (timers w1), now := now w1 + d\<rparr>))"
    by auto
  define w3 where "w3 = handleMouseEnter ev' h (w1\<lparr>timers := filter P2 (timers w1), now := now w1 + d\<rparr>)"
  have r: "run [(0, PointerLeave h ev), (d, PointerEnter h ev')] w = Inr w3"
    unfolding r0 w1_def [symmetric] r2 w3_def by (rule refl)
  have f3: "tooltip w3 \<noteq> None" "activeHotspot w3 = Some h" "visible w3"
    using f1 v t by (simp_all add: w3_def handleMouseEnter_eq visible_def)
  have ts3: "\<forall>x\<in>set (timers w3). cb x = ResizeCb \<or> (\<exists>ev. cb x = ShowCb h ev)"
    using ts1 f1(6) by (auto simp: w3_def handleMouseEnter_eq)
  from wait_keeps_showing [OF f3(1,3,2) ts3, of e] obtain w' where
    "advance e w3 = Inr w'" "visible w'" "activeHotspot w' = Some h" "hide_timers w' = []"
    by blast
  then have second: "\<exists>w'. run_then_wait [(0, PointerLeave h ev), (d, PointerEnter h ev')] e w = Inr w'
           \<and> visible w' \<and> activeHotspot w' = Some h \<and> hide_timers w' = []"
    unfolding run_then_wait_def r by (intro exI [of _ w']) simp
  from step_leave [OF b hh _ z, of ev "[]"] t obtain Q0 where
    q0: "run [(0, PointerLeave h ev)] w =
         Inr (handleMouseLeave ev h (w\<lparr>timers := filter Q0 (timers w), now := now w + 0\<rparr>))"
    by auto
  define u1 where "u1 = handleMouseLeave ev h (w\<lparr>timers := filter Q0 (timers w), now := now w + 0\<rparr>)"
  have g1: "tooltip u1 = Some t" "activeHotspot u1 = Some h" "now u1 = now w"
    using t act by (simp_all add: u1_def handleMouseLeave_eq)
  have "\<forall>x\<in>set (timers u1). due x \<le> now u1 + d \<longrightarrow> cb x = ResizeCb"
    using rs d g1(3) by (auto simp: u1_def handleMouseLeave_eq)
  from advance_resize_only [OF _ this] g1(1) obtain Q2 where
    "advance d u1 = Inr (u1\<lparr>timers := filter Q2 (timers u1), now := now u1 + d\<rparr>)" by auto
  then have first: "\<exists>w'. run_then_wait [(0, PointerLeave h ev)] d w = Inr w'
           \<and> visible w' \<and> activeHotspot w' = Some h"
    unfolding run_then_wait_def q0 u1_def [symmetric]
    using g1 v t by (simp add: visible_def)
  from first second show ?thesis by (rule conjI)
qed

theorem leave_and_reenter_keeps_tooltip_witness:
  "bound demo_shown \<and> 1 \<in> set (hotspots demo_shown)
   \<and> tooltip demo_shown \<noteq> None \<and> visible demo_shown \<and> activeHotspot demo_shown = Some 1
   \<and> quiet demo_shown \<and> 149 < hideDelay
   \<and> (\<exists>w'. run_then_wait [(0, PointerLeave 1 (mouse_at 190 310))] 149 demo_shown = Inr w'
           \<and> visible w' \<and> activeHotspot w' = Some 1)
   \<and> (\<exists>w'. run_then_wait [(0, PointerLeave 1 (mouse_at 190 310)),
                            (149, PointerEnter 1 (mouse_at 210 310))] 1000 demo_shown = Inr w'
           \<and> visible w' \<and> activeHotspot w' = Some 1 \<and> hide_timers w' = [])"
  using leave_and_reenter_keeps_tooltip [of demo_shown 1 "the (tooltip demo_shown)" 149
      "mouse_at 190 310" "mouse_at 210 310" 1000]
  by (simp add: demo_shown_eq demo_defs bound_def bound_listeners_def hotspot_listeners_def
      visible_def classList_contains_def quiet_def hideDelay_def)




section \<open>Missing project data\<close>

text \<open>
  The guard \<^verbatim>\<open>if (!projectInfo)\<close> of \<^verbatim>\<open>showTooltip\<close> tests the value that the lookup
  \<^verbatim>\<open>window.projectData[projectId]\<close> returns. When the lookup finds nothing, neither in the
  registry nor on its prototype, the show request adds one diagnostic to the console and
  leaves everything else as it was. A name that is not in the registry is still found when
  it is the name of a member of \<^verbatim>\<open>Object.prototype\<close>.
\<close>

lemma projectData_get_None:
  "projectData_get w key = None \<longleftrightarrow>
     projectData w key = None \<and> key \<notin> set object_prototype_keys"
  by (simp add: projectData_get_def split: option.splits)

lemma showTooltip_not_found:
  assumes "projectData_get w (property_key (hs_project w hotspot)) = None"
  shows "showTooltip hotspot event w =
           Inr (w\<lparr>console :=
                     console w @ [ProjectDataNotFound (property_key (hs_project w hotspot))]\<rparr>)"
  using assms by (simp add: showTooltip_def)

text \<open>
  C4, at a hotspot whose identifier has no entry in the registry and is the name of an
  inherited member. On the page \<open>demo_inherited\<close> hotspot 3 carries
  \<^verbatim>\<open>data-project="constructor"\<close> and the registry holds \<^verbatim>\<open>project1\<close> to \<^verbatim>\<open>project5\<close> only.
  The lookup returns the inherited function, the guard lets it pass, and
  \<^verbatim>\<open>showTooltip\<close> is not a no-op: it makes hotspot 3 the associated hotspot, clears the title
  and the description of the tooltip and throws a \<^verbatim>\<open>TypeError\<close> at
  \<^verbatim>\<open>projectInfo.tech.map\<close>, with no diagnostic of its own. Hovering hotspot 3 for 300 ms
  ends with this exception uncaught in the timer callback and hotspot 3 associated. On
  the page \<open>demo_inherited_bare\<close>, whose tooltip has no \<^verbatim>\<open>.tooltip-tech\<close> element, the same
  request returns normally and shows a tooltip with empty title and description: the
  tooltip is visible, hotspot 3 is associated and flagged active, and the console is as
  before.
\<close>

theorem showTooltip_inherited_member:
  "hs_project demo_inherited 3 = Some ''constructor''
   \<and> projectData demo_inherited (property_key (hs_project demo_inherited 3)) = None
   \<and> showTooltip 3 (mouse_at 610 310) demo_inherited =
       Inl (TypeError,
            demo_inherited\<lparr>activeHotspot := Some 3,
                            tooltip := Some (demo_tooltip\<lparr>title_el := Some [],
                                                           description_el := Some []\<rparr>)\<rparr>)
   \<and> run_then_wait [(0, PointerEnter 3 (mouse_at 610 310))] 300 demo_inherited =
       Inr (demo_inherited\<lparr>activeHotspot := Some 3, now := 300, next_tid := 2,
                            showTimeout := Some 1,
                            tooltip := Some (demo_tooltip\<lparr>title_el := Some [],
                                                           description_el := Some []\<rparr>),
                            console := console demo_inherited @ [Uncaught TypeError]\<rparr>)
   \<and> projectData demo_inherited_bare (property_key (hs_project demo_inherited_bare 3)) = None
   \<and> \<not> isl (showTooltip 3 (mouse_at 610 310) demo_inherited_bare)
   \<and> visible (projr (showTooltip 3 (mouse_at 610 310) demo_inherited_bare))
   \<and> activeHotspot (projr (showTooltip 3 (mouse_at 610 310) demo_inherited_bare)) = Some 3
   \<and> hs_active (projr (showTooltip 3 (mouse_at 610 310) demo_inherited_bare)) = {3}
   \<and> console (projr (showTooltip 3 (mouse_at 610 310) demo_inherited_bare)) =
       console demo_inherited_bare"
proof -
  have a: "hs_project demo_inherited 3 = Some ''constructor''"
    and b: "projectData demo_inherited (property_key (hs_project demo_inherited 3)) = None"
    and c: "projectData demo_inherited_bare (property_key (hs_project demo_inherited_bare 3)) = None"
    by (simp_all add: demo_inherited_bare_def demo_inherited_def demo_defs property_key_def Let_def)
  have d: "showTooltip 3 (mouse_at 610 310) demo_inherited =
       Inl (TypeError,
            demo_inherited\<lparr>activeHotspot := Some 3,
                            tooltip := Some (demo_tooltip\<lparr>title_el := Some [],
                                                           description_el := Some []\<rparr>)\<rparr>)"
    by (simp add: demo_inherited_def demo_defs method_defs)
  have e: "run_then_wait [(0, PointerEnter 3 (mouse_at 610 310))] 300 demo_inherited =
       Inr (demo_inherited\<lparr>activeHotspot := Some 3, now := 300, next_tid := 2,
                            showTimeout := Some 1,
                            tooltip := Some (demo_tooltip\<lparr>title_el := Some [],
                                                           description_el := Some []\<rparr>),
                            console := console demo_inherited @ [Uncaught TypeError]\<rparr>)"
    by (simp add: run_then_wait_def demo_inherited_def demo_defs method_defs loop_defs)
  have f: "\<not> isl (showTooltip 3 (mouse_at 610 310) demo_inherited_bare)
   \<and> visible (projr (showTooltip 3 (mouse_at 610 310) demo_inherited_bare))
   \<and> activeHotspot (projr (showTooltip 3 (mouse_at 610 310) demo_inherited_bare)) = Some 3
   \<and> hs_active (projr (showTooltip 3 (mouse_at 610 310) demo_inherited_bare)) = {3}
   \<and> console (projr (showTooltip 3 (mouse_at 610 310) demo_inherited_bare)) =
       console demo_inherited_bare"
    by (simp add: demo_inherited_bare_def demo_inherited_def demo_defs method_defs visible_def)
  from a b c d e f show ?thesis by (simp only: simp_thms)
qed

section \<open>Placement\<close>

text \<open>
  C8. On a touch device, or in a viewport less than 768 pixels wide, \<^verbatim>\<open>positionTooltip\<close>
  centres the tooltip horizontally, anchors it 20 pixels from the bottom edge and tags it
  \<^verbatim>\<open>bottom\<close>, whatever the hotspot and its rectangle are: the tooltip it leaves is the
  same for every hotspot, event and hotspot geometry.
\<close>

theorem positionTooltip_mobile:
  assumes "tooltip w = Some t"
    and "isTouchDevice w \<or> vp_width (getViewportSize w) < 768"
  shows "positionTooltip hotspot event w =
           w\<lparr>tooltip := Some (t\<lparr>style_left := Percent 50, style_top := Auto,
                                 style_bottom := Px 20,
                                 style_transform := ''translateX(-50%)'',
                                 className := [''tooltip'', ''visible'', ''bottom'']\<rparr>)\<rparr>
       \<and> tooltip (positionTooltip hotspot event (w\<lparr>hs_rect := g\<rparr>)) =
           tooltip (positionTooltip hotspot' event' w)"
  using assms by (auto simp: positionTooltip_def Let_def getViewportSize_def isTouchDevice_def)

theorem positionTooltip_mobile_witness:
  "tooltip (demo\<lparr>innerWidth := Some 500, clientWidth := Some 500\<rparr>) = Some demo_tooltip
   \<and> vp_width (getViewportSize (demo\<lparr>innerWidth := Some 500, clientWidth := Some 500\<rparr>)) < 768
   \<and> positionTooltip 2 (mouse_at 410 310) (demo\<lparr>innerWidth := Some 500, clientWidth := Some 500\<rparr>) =
       demo\<lparr>innerWidth := Some 500, clientWidth := Some 500,
            tooltip := Some (demo_tooltip\<lparr>style_left := Percent 50, style_top := Auto,
                                           style_bottom := Px 20,
                                           style_transform := ''translateX(-50%)'',
                                           className := [''tooltip'', ''visible'', ''bottom'']\<rparr>)\<rparr>"
  using positionTooltip_mobile [of "demo\<lparr>innerWidth := Some 500, clientWidth := Some 500\<rparr>"
      demo_tooltip 2 "mouse_at 410 310" demo_rect 2 "mouse_at 410 310"]
  by (simp add: demo_defs getViewportSize_def or_zero_def Let_def)

text \<open>
  C9, as the code has it. In pointer-follow mode (the tooltip visible, the pointer moving
  over the associated hotspot, no touch device) the tooltip is moved to offsets \<open>x\<close> and
  \<open>y\<close> with the transform removed, where
  \<^item> \<open>x\<close> keeps 15 pixels to the left edge, and 15 pixels to the right edge as well when
    the tooltip is at most the viewport width less 30 pixels wide;
  \<^item> \<open>y\<close> puts the tooltip's bottom edge 15 pixels above the cursor when that leaves 15
    pixels above the tooltip, and its top edge 15 pixels below the cursor otherwise;
  \<^item> the bottom edge of the viewport is not looked at: the tooltip stays above it when
    the cursor is in the viewport and twice the tooltip's height plus 45 pixels fit in
    the viewport's height.
\<close>

theorem handleMouseMove_follow:
  assumes "tooltip w = Some t" and "classList_contains ''visible'' (className t)"
    and "activeHotspot w = Some hotspot" and "\<not> isTouchDevice w"
  shows "\<exists>x y. handleMouseMove event hotspot w =
             Inr (w\<lparr>tooltip := Some (t\<lparr>style_left := Px x, style_top := Px y,
                                        style_transform := ''none''\<rparr>)\<rparr>)
         \<and> 15 \<le> x
         \<and> (if r_width (tooltip_rect w) + 30 \<le> vp_width (getViewportSize w)
              then x + r_width (tooltip_rect w) \<le> vp_width (getViewportSize w) - 15
              else x = 15)
         \<and> (if 15 \<le> clientY event - r_height (tooltip_rect w) - 15
              then y = clientY event - r_height (tooltip_rect w) - 15
              else y = clientY event + 15)
         \<and> (if 0 \<le> clientY event \<and> clientY event \<le> vp_height (getViewportSize w)
                \<and> 2 * r_height (tooltip_rect w) + 45 \<le> vp_height (getViewportSize w)
              then 15 \<le> y \<and> y + r_height (tooltip_rect w) \<le> vp_height (getViewportSize w)
              else True)"
  using assms
  by (auto simp: handleMouseMove_def updateTooltipPosition_def Let_def)

theorem handleMouseMove_follow_witness:
  "tooltip demo_shown \<noteq> None \<and> visible demo_shown \<and> activeHotspot demo_shown = Some 1
   \<and> \<not> isTouchDevice demo_shown
   \<and> (\<exists>x y. handleMouseMove (mouse_at 1270 40) 1 demo_shown =
             Inr (demo_shown\<lparr>tooltip := Some (the (tooltip demo_shown)\<lparr>style_left := Px x,
                                   style_top := Px y, style_transform := ''none''\<rparr>)\<rparr>)
         \<and> 15 \<le> x \<and> x + 200 \<le> 1265 \<and> y = 55 \<and> y + 100 \<le> 800)"
  using handleMouseMove_follow [of demo_shown "the (tooltip demo_shown)" 1 "mouse_at 1270 40"]
  by (simp add: demo_shown_eq visible_def demo_defs classList_contains_def isTouchDevice_def
      getViewportSize_def or_zero_def Let_def)

text \<open>
  The claim as the specification states it, that the tooltip clips no edge of the viewport
  for every cursor position, tooltip size and viewport size, fails: with a tooltip 400
  pixels high in the viewport of 800 pixels and the cursor at height 400, the follow
  position is below the cursor and the tooltip ends at 815.
\<close>

theorem follow_clips_bottom:
  "visible demo_tall \<and> activeHotspot demo_tall = Some 1 \<and> \<not> isTouchDevice demo_tall
   \<and> \<not> isl (handleMouseMove (mouse_at 640 400) 1 demo_tall)
   \<and> follow_box (projr (handleMouseMove (mouse_at 640 400) 1 demo_tall)) =
       Some (640, 415, 840, 815)
   \<and> vp_height (getViewportSize (projr (handleMouseMove (mouse_at 640 400) 1 demo_tall))) = 800
   \<and> \<not> inside_viewport (projr (handleMouseMove (mouse_at 640 400) 1 demo_tall))"
  by (simp add: demo_tall_def demo_shown_eq visible_def demo_defs method_defs follow_box_def
      inside_viewport_def)

end
